theory Spec2Isabelle
  imports Complex_Main
begin

section \<open>Lease-based leader election: the data model\<close>

text \<open>
  The class \<open>LeaderElection\<close> of the election simulator, embedded as state-passing
  functions. Granularity: every command of the class and every timer callback is one
  transition that runs from its first statement to its last; the values it reads from
  its environment (the clock, the random number, whether a database call rejects) are
  parameters. Interleavings of two callbacks at an \<open>await\<close> are outside this model;
  the one call the class makes without awaiting it, \<open>stopElection\<close> from \<open>startElection\<close>,
  leaves its continuation behind as a task of its own (field \<open>suspended\<close>).
\<close>

definition LEASE_DURATION :: int where
  "LEASE_DURATION = 10000"

definition HEARTBEAT_INTERVAL :: real where
  "HEARTBEAT_INTERVAL = 3000"

text \<open>The interface \<open>LeaderDocument\<close>; its \<open>_id\<close> is the key under which a collection holds it.\<close>

record LeaderDocument =
  nodeId :: string
  expiresAt :: int
  updatedAt :: int

datatype status = Idle | Competing | Leader | Follower | Crashed

datatype database = MongoDB | Redis

text \<open>
  Timers live in the event loop; a node only holds their handles. A callback is the
  closure handed to \<open>setTimeout\<close> or \<open>setInterval\<close>, named by what it runs and for which node.
\<close>

type_synonym handle = nat

datatype callback = CompetitionAttempt string | CompetitionRetry string | HeartbeatTick string

datatype timer = Timeout callback real | Interval callback real

record Node =
  node_id :: string
  status :: status
  lease :: "int option"
  heartbeatTimer :: "handle option"
  competitionTimer :: "handle option"

text \<open>The messages handed to \<open>broadcast\<close>.\<close>

datatype event =
    ElectionStarted database
  | ElectionReset
  | NodeCrashed string
  | NodeUpdate string status "int option"
  | LeaderElected string
  | LeaderLost string

text \<open>The calls made on the database clients, by kind.\<close>

datatype command =
    MongoConnect | MongoClose | MongoDeleteMany | MongoFindOneAndUpdate | MongoInsertOne
  | MongoDeleteOne
  | RedisConnect | RedisQuit | RedisDel | RedisSet | RedisGet | RedisPExpire

text \<open>An error thrown by a database client; MongoDB errors carry a numeric \<open>code\<close>.\<close>

datatype error = Error (error_code: "int option")

text \<open>Reading a property of null.\<close>

definition TypeError :: error where
  "TypeError = Error None"

text \<open>Where a \<open>stopElection\<close> that nobody awaits is waiting: for \<open>close()\<close> or for \<open>quit()\<close>.\<close>

datatype continuation = AfterClose | AfterQuit

datatype connection = Connection

text \<open>
  The fields of the class, followed by what lies outside the object and is observed
  through it: the server's collection \<open>leader\<close> (documents by \<open>_id\<close>), the Redis keys
  (value and absolute expiry time in ms), the event loop's pending timers, the
  continuations of un-awaited \<open>stopElection\<close> calls that have not run yet, the messages
  broadcast so far and the database calls made so far.
\<close>

record LeaderElection =
  nodes :: "(string \<times> Node) list"
  currentDatabase :: database
  mongoClient :: "connection option"
  redisClient :: "connection option"
  leaderCollection :: "connection option"
  running :: bool
  leader_docs :: "string \<rightharpoonup> LeaderDocument"
  redis_keys :: "string \<rightharpoonup> string \<times> int"
  timers :: "handle \<rightharpoonup> timer"
  next_handle :: handle
  suspended :: "continuation list"
  broadcasts :: "event list"
  commands :: "command list"

type_synonym 'a result = "(error + 'a) \<times> LeaderElection"

type_synonym faults = "command \<Rightarrow> error option"

text \<open>
  Which suspended continuations (by position in \<open>suspended\<close>) run while the first and
  while the second awaited call of an initialisation is pending.
\<close>

type_synonym schedule = "nat list \<times> nat list"

section \<open>Control flow: sequencing, exceptions\<close>

definition and_then :: "'a result \<Rightarrow> ('a \<Rightarrow> LeaderElection \<Rightarrow> 'b result) \<Rightarrow> 'b result" where
  "and_then r k = (case r of (Inl e, s) \<Rightarrow> (Inl e, s) | (Inr a, s) \<Rightarrow> k a s)"

definition try_catch :: "'a result \<Rightarrow> (error \<Rightarrow> LeaderElection \<Rightarrow> 'a result) \<Rightarrow> 'a result" where
  "try_catch r h = (case r of (Inl e, s) \<Rightarrow> h e s | (Inr a, s) \<Rightarrow> (Inr a, s))"

section \<open>The database servers\<close>

text \<open>
  \<open>findOneAndUpdate({_id: key, ...filter}, {$set: ...}, {returnDocument: 'after'})\<close>:
  what the callers read as \<open>result.value\<close>, the document after the update, or null when
  nothing matched (there is no upsert).
\<close>

definition findOneAndUpdate ::
  "string \<Rightarrow> (LeaderDocument \<Rightarrow> bool) \<Rightarrow> (LeaderDocument \<Rightarrow> LeaderDocument) \<Rightarrow>
   (string \<rightharpoonup> LeaderDocument) \<Rightarrow> (error + LeaderDocument option) \<times> (string \<rightharpoonup> LeaderDocument)" where
  "findOneAndUpdate key matches upd docs =
     (case docs key of
        None \<Rightarrow> (Inr None, docs)
      | Some d \<Rightarrow> if matches d then (Inr (Some (upd d)), docs(key \<mapsto> upd d)) else (Inr None, docs))"

text \<open>\<open>insertOne\<close>: a second document with the same \<open>_id\<close> is refused with the duplicate key error 11000.\<close>

definition insertOne ::
  "string \<Rightarrow> LeaderDocument \<Rightarrow> (string \<rightharpoonup> LeaderDocument) \<Rightarrow> (error + unit) \<times> (string \<rightharpoonup> LeaderDocument)" where
  "insertOne key d docs =
     (if docs key = None then (Inr (), docs(key \<mapsto> d)) else (Inl (Error (Some 11000)), docs))"

definition deleteOne ::
  "string \<Rightarrow> (string \<rightharpoonup> LeaderDocument) \<Rightarrow> (error + unit) \<times> (string \<rightharpoonup> LeaderDocument)" where
  "deleteOne key docs = (Inr (), docs(key := None))"

definition deleteMany ::
  "(string \<rightharpoonup> LeaderDocument) \<Rightarrow> (error + unit) \<times> (string \<rightharpoonup> LeaderDocument)" where
  "deleteMany docs = (Inr (), Map.empty)"

text \<open>\<open>expiresAt\<close> is a required field of \<open>LeaderDocument\<close>: \<open>{$exists: false}\<close> matches none of them.\<close>

definition has_expiresAt :: "LeaderDocument \<Rightarrow> bool" where
  "has_expiresAt d = True"

text \<open>A Redis key is there at server time \<open>t\<close> when it was set and its expiry lies after \<open>t\<close>.\<close>

definition redis_live :: "int \<Rightarrow> (string \<rightharpoonup> string \<times> int) \<Rightarrow> string \<Rightarrow> string option" where
  "redis_live t keys k =
     (case keys k of None \<Rightarrow> None | Some (v, expiry) \<Rightarrow> if expiry \<le> t then None else Some v)"

text \<open>\<open>SET k v NX PX px\<close> answers \<open>'OK'\<close>, or null when the key is there.\<close>

definition redis_set_nx_px ::
  "string \<Rightarrow> string \<Rightarrow> int \<Rightarrow> int \<Rightarrow> (string \<rightharpoonup> string \<times> int) \<Rightarrow>
   (error + string option) \<times> (string \<rightharpoonup> string \<times> int)" where
  "redis_set_nx_px k v px t keys =
     (if redis_live t keys k = None then (Inr (Some ''OK''), keys(k \<mapsto> (v, t + px)))
      else (Inr None, keys))"

definition redis_get ::
  "string \<Rightarrow> int \<Rightarrow> (string \<rightharpoonup> string \<times> int) \<Rightarrow> (error + string option) \<times> (string \<rightharpoonup> string \<times> int)" where
  "redis_get k t keys = (Inr (redis_live t keys k), keys)"

definition redis_pExpire ::
  "string \<Rightarrow> int \<Rightarrow> int \<Rightarrow> (string \<rightharpoonup> string \<times> int) \<Rightarrow> (error + bool) \<times> (string \<rightharpoonup> string \<times> int)" where
  "redis_pExpire k px t keys =
     (case redis_live t keys k of
        None \<Rightarrow> (Inr False, keys)
      | Some v \<Rightarrow> (Inr True, keys(k \<mapsto> (v, t + px))))"

definition redis_del ::
  "string \<Rightarrow> (string \<rightharpoonup> string \<times> int) \<Rightarrow> (error + unit) \<times> (string \<rightharpoonup> string \<times> int)" where
  "redis_del k keys = (Inr (), keys(k := None))"

text \<open>
  A call on a client: it is recorded, and then either rejects (\<open>faults\<close> names its kind)
  without reaching the server, or the server runs it.
\<close>

definition mongo ::
  "command \<Rightarrow> faults \<Rightarrow>
   ((string \<rightharpoonup> LeaderDocument) \<Rightarrow> (error + 'a) \<times> (string \<rightharpoonup> LeaderDocument)) \<Rightarrow>
   LeaderElection \<Rightarrow> 'a result" where
  "mongo c faults operation s =
     (let s1 = s\<lparr>commands := commands s @ [c]\<rparr> in
      case faults c of
        Some e \<Rightarrow> (Inl e, s1)
      | None \<Rightarrow> (case operation (leader_docs s1) of (r, docs) \<Rightarrow> (r, s1\<lparr>leader_docs := docs\<rparr>)))"

definition redis ::
  "command \<Rightarrow> faults \<Rightarrow>
   ((string \<rightharpoonup> string \<times> int) \<Rightarrow> (error + 'a) \<times> (string \<rightharpoonup> string \<times> int)) \<Rightarrow>
   LeaderElection \<Rightarrow> 'a result" where
  "redis c faults operation s =
     (let s1 = s\<lparr>commands := commands s @ [c]\<rparr> in
      case faults c of
        Some e \<Rightarrow> (Inl e, s1)
      | None \<Rightarrow> (case operation (redis_keys s1) of (r, keys) \<Rightarrow> (r, s1\<lparr>redis_keys := keys\<rparr>)))"

definition no_faults :: faults where
  "no_faults = (\<lambda>c. None)"

section \<open>The class\<close>

subsection \<open>Construction, broadcast, the node map, timers\<close>

definition new_node :: "string \<Rightarrow> string \<times> Node" where
  "new_node nid =
     (nid, \<lparr>node_id = nid, status = Idle, lease = None, heartbeatTimer = None,
            competitionTimer = None\<rparr>)"

text \<open>The constructor, over whatever the two servers hold.\<close>

definition constructor ::
  "(string \<rightharpoonup> LeaderDocument) \<Rightarrow> (string \<rightharpoonup> string \<times> int) \<Rightarrow> LeaderElection" where
  "constructor docs keys =
     \<lparr>nodes = map new_node [''node-1'', ''node-2'', ''node-3'', ''node-4'', ''node-5''],
      currentDatabase = MongoDB, mongoClient = None, redisClient = None,
      leaderCollection = None, running = False,
      leader_docs = docs, redis_keys = keys, timers = Map.empty, next_handle = 0,
      suspended = [], broadcasts = [], commands = []\<rparr>"

definition broadcast :: "event \<Rightarrow> LeaderElection \<Rightarrow> LeaderElection" where
  "broadcast data s = s\<lparr>broadcasts := broadcasts s @ [data]\<rparr>"

definition get_node :: "string \<Rightarrow> LeaderElection \<Rightarrow> Node option" where
  "get_node nid s = map_of (nodes s) nid"

text \<open>Assignments to the fields of the node object stored under \<open>nid\<close>.\<close>

definition modify_node :: "string \<Rightarrow> (Node \<Rightarrow> Node) \<Rightarrow> LeaderElection \<Rightarrow> LeaderElection" where
  "modify_node nid f s =
     s\<lparr>nodes := map (\<lambda>(k, n). if k = nid then (k, f n) else (k, n)) (nodes s)\<rparr>"

definition setTimeout :: "callback \<Rightarrow> real \<Rightarrow> LeaderElection \<Rightarrow> handle \<times> LeaderElection" where
  "setTimeout cb ms s =
     (next_handle s,
      s\<lparr>timers := (timers s)(next_handle s \<mapsto> Timeout cb ms), next_handle := Suc (next_handle s)\<rparr>)"

definition setInterval :: "callback \<Rightarrow> real \<Rightarrow> LeaderElection \<Rightarrow> handle \<times> LeaderElection" where
  "setInterval cb ms s =
     (next_handle s,
      s\<lparr>timers := (timers s)(next_handle s \<mapsto> Interval cb ms), next_handle := Suc (next_handle s)\<rparr>)"

text \<open>\<open>if (h) clearTimeout(h)\<close>, on the table of pending timers.\<close>

definition clearTimeout :: "handle option \<Rightarrow> (handle \<rightharpoonup> timer) \<Rightarrow> (handle \<rightharpoonup> timer)" where
  "clearTimeout h pending = (case h of None \<Rightarrow> pending | Some i \<Rightarrow> pending(i := None))"

definition clearInterval :: "handle option \<Rightarrow> (handle \<rightharpoonup> timer) \<Rightarrow> (handle \<rightharpoonup> timer)" where
  "clearInterval h pending = (case h of None \<Rightarrow> pending | Some i \<Rightarrow> pending(i := None))"

subsection \<open>The backend operations\<close>

definition tryAcquireMongoLeadership :: "string \<Rightarrow> int \<Rightarrow> faults \<Rightarrow> LeaderElection \<Rightarrow> bool result" where
  "tryAcquireMongoLeadership nid now faults s =
     (if leaderCollection s = None then (Inr False, s)
      else
        try_catch
          (let expires = now + LEASE_DURATION in
           and_then
             (mongo MongoFindOneAndUpdate faults
                (findOneAndUpdate ''current-leader''
                   (\<lambda>d. expiresAt d < now \<or> \<not> has_expiresAt d)
                   (\<lambda>d. d\<lparr>nodeId := nid, expiresAt := expires, updatedAt := now\<rparr>)) s)
             (\<lambda>result s1.
                case result of
                  None \<Rightarrow>
                    try_catch
                      (and_then
                         (mongo MongoInsertOne faults
                            (insertOne ''current-leader''
                               \<lparr>nodeId = nid, expiresAt = expires, updatedAt = now\<rparr>) s1)
                         (\<lambda>_ s2. (Inr True, s2)))
                      (\<lambda>insertError s2.
                         if error_code insertError = Some 11000 then (Inr False, s2)
                         else (Inl insertError, s2))
                | Some v \<Rightarrow> (Inr (nodeId v = nid), s1)))
          (\<lambda>err s'. (Inr False, s')))"

definition tryAcquireRedisLeadership :: "string \<Rightarrow> int \<Rightarrow> faults \<Rightarrow> LeaderElection \<Rightarrow> bool result" where
  "tryAcquireRedisLeadership nid now faults s =
     (if redisClient s = None then (Inr False, s)
      else
        try_catch
          (and_then
             (redis RedisSet faults (redis_set_nx_px ''leader'' nid LEASE_DURATION now) s)
             (\<lambda>result s1. (Inr (result = Some ''OK''), s1)))
          (\<lambda>err s'. (Inr False, s')))"

definition renewMongoLease :: "string \<Rightarrow> int \<Rightarrow> faults \<Rightarrow> LeaderElection \<Rightarrow> bool result" where
  "renewMongoLease nid now faults s =
     (if leaderCollection s = None then (Inr False, s)
      else
        try_catch
          (let expires = now + LEASE_DURATION in
           and_then
             (mongo MongoFindOneAndUpdate faults
                (findOneAndUpdate ''current-leader''
                   (\<lambda>d. nodeId d = nid)
                   (\<lambda>d. d\<lparr>expiresAt := expires, updatedAt := now\<rparr>)) s)
             (\<lambda>result s1.
                (Inr (case result of None \<Rightarrow> False | Some v \<Rightarrow> nodeId v = nid), s1)))
          (\<lambda>err s'. (Inr False, s')))"

text \<open>
  Renewal on Redis is two round trips: the server runs \<open>GET\<close> at time \<open>now\<close> and
  \<open>PEXPIRE\<close> at time \<open>later\<close>, and what \<open>PEXPIRE\<close> answers is not looked at.
\<close>

definition renewRedisLease :: "string \<Rightarrow> int \<Rightarrow> int \<Rightarrow> faults \<Rightarrow> LeaderElection \<Rightarrow> bool result" where
  "renewRedisLease nid now later faults s =
     (if redisClient s = None then (Inr False, s)
      else
        try_catch
          (and_then
             (redis RedisGet faults (redis_get ''leader'' now) s)
             (\<lambda>currentLeader s1.
                if currentLeader = Some nid then
                  and_then
                    (redis RedisPExpire faults (redis_pExpire ''leader'' LEASE_DURATION later) s1)
                    (\<lambda>_ s2. (Inr True, s2))
                else (Inr False, s1)))
          (\<lambda>err s'. (Inr False, s')))"

definition releaseMongoLock :: "faults \<Rightarrow> LeaderElection \<Rightarrow> unit result" where
  "releaseMongoLock faults s =
     (if leaderCollection s = None then (Inr (), s)
      else
        try_catch (mongo MongoDeleteOne faults (deleteOne ''current-leader'') s)
          (\<lambda>err s'. (Inr (), s')))"

definition releaseRedisLock :: "faults \<Rightarrow> LeaderElection \<Rightarrow> unit result" where
  "releaseRedisLock faults s =
     (if redisClient s = None then (Inr (), s)
      else
        try_catch (redis RedisDel faults (redis_del ''leader'') s)
          (\<lambda>err s'. (Inr (), s')))"

subsection \<open>A \<open>stopElection\<close> that is not awaited\<close>

text \<open>
  One step of the continuation at position \<open>i\<close> of \<open>suspended\<close>: after \<open>close()\<close> the
  MongoDB handles are nulled and, if a Redis client is there by then, \<open>quit()\<close> is
  called on it and awaited in turn; after \<open>quit()\<close> the Redis client is nulled. A
  rejected \<open>quit()\<close> ends the continuation: nobody holds its promise.
\<close>

definition resume :: "nat \<Rightarrow> faults \<Rightarrow> LeaderElection \<Rightarrow> LeaderElection" where
  "resume i faults s =
     (if i < length (suspended s) then
        (let rest = take i (suspended s) @ drop (Suc i) (suspended s)
         in case suspended s ! i of
              AfterClose \<Rightarrow>
                (let s1 = s\<lparr>mongoClient := None, leaderCollection := None, suspended := rest\<rparr>
                 in if redisClient s1 \<noteq> None then
                      (case redis RedisQuit faults (\<lambda>keys. (Inr (), keys)) s1 of
                         (Inl e, s2) \<Rightarrow> s2
                       | (Inr u, s2) \<Rightarrow> s2\<lparr>suspended := suspended s2 @ [AfterQuit]\<rparr>)
                    else s1)
            | AfterQuit \<Rightarrow> s\<lparr>redisClient := None, suspended := rest\<rparr>)
      else s)"

text \<open>
  While an awaited call is pending, the continuations at the positions \<open>turns\<close> run, one
  after the other; the call's own outcome \<open>r\<close> is not touched.
\<close>

definition awaiting :: "nat list \<Rightarrow> faults \<Rightarrow> 'a result \<Rightarrow> 'a result" where
  "awaiting turns faults r = (fst r, fold (\<lambda>i. resume i faults) turns (snd r))"

subsection \<open>Initialisation\<close>

text \<open>
  Both read the client field again after the first \<open>await\<close>
  (\<open>this.mongoClient.db(...)\<close>, \<open>this.redisClient.del(...)\<close>): a continuation that has
  nulled it in between makes that a \<open>TypeError\<close>.
\<close>

definition initMongo :: "schedule \<Rightarrow> faults \<Rightarrow> LeaderElection \<Rightarrow> unit result" where
  "initMongo sched faults s =
     and_then
       (awaiting (fst sched) faults
          (mongo MongoConnect faults (\<lambda>docs. (Inr (), docs)) (s\<lparr>mongoClient := Some Connection\<rparr>)))
       (\<lambda>_ s1.
          if mongoClient s1 = None then (Inl TypeError, s1)
          else awaiting (snd sched) faults
                 (mongo MongoDeleteMany faults deleteMany (s1\<lparr>leaderCollection := Some Connection\<rparr>)))"

definition initRedis :: "schedule \<Rightarrow> faults \<Rightarrow> LeaderElection \<Rightarrow> unit result" where
  "initRedis sched faults s =
     and_then
       (awaiting (fst sched) faults
          (redis RedisConnect faults (\<lambda>keys. (Inr (), keys)) (s\<lparr>redisClient := Some Connection\<rparr>)))
       (\<lambda>_ s1.
          if redisClient s1 = None then (Inl TypeError, s1)
          else awaiting (snd sched) faults (redis RedisDel faults (redis_del ''leader'') s1))"

subsection \<open>Competition and heartbeat\<close>

definition startNodeCompetition :: "string \<Rightarrow> real \<Rightarrow> LeaderElection \<Rightarrow> LeaderElection" where
  "startNodeCompetition nid random s =
     (case get_node nid s of
        None \<Rightarrow> s
      | Some node \<Rightarrow>
          if status node = Crashed then s
          else
            (let s1 = modify_node nid (\<lambda>n. n\<lparr>status := Competing\<rparr>) s;
                 s2 = broadcast (NodeUpdate nid Competing None) s1;
                 delay = random * 2000;
                 (h, s3) = setTimeout (CompetitionAttempt nid) delay s2
             in modify_node nid (\<lambda>n. n\<lparr>competitionTimer := Some h\<rparr>) s3))"

definition startHeartbeat :: "string \<Rightarrow> LeaderElection \<Rightarrow> LeaderElection" where
  "startHeartbeat nid s =
     (case get_node nid s of
        None \<Rightarrow> s
      | Some node \<Rightarrow>
          (let (h, s1) = setInterval (HeartbeatTick nid) HEARTBEAT_INTERVAL s
           in modify_node nid (\<lambda>n. n\<lparr>heartbeatTimer := Some h\<rparr>) s1))"

text \<open>
  The callback of the competition timer. \<open>now\<close> is the time of the backend call,
  \<open>now'\<close> the clock read after it returned.
\<close>

definition competitionAttempt ::
  "string \<Rightarrow> int \<Rightarrow> int \<Rightarrow> faults \<Rightarrow> LeaderElection \<Rightarrow> unit result" where
  "competitionAttempt nid now now' faults s =
     (case get_node nid s of
        None \<Rightarrow> (Inr (), s)
      | Some node \<Rightarrow>
          if \<not> running s \<or> status node = Crashed then (Inr (), s)
          else
            and_then
              (if currentDatabase s = MongoDB then tryAcquireMongoLeadership nid now faults s
               else tryAcquireRedisLeadership nid now faults s)
              (\<lambda>acquired s1.
                 if acquired then
                   (let s2 = modify_node nid
                               (\<lambda>n. n\<lparr>status := Leader, lease := Some (now' + LEASE_DURATION)\<rparr>) s1;
                        s3 = broadcast (NodeUpdate nid Leader (Some (now' + LEASE_DURATION))) s2;
                        s4 = broadcast (LeaderElected nid) s3
                    in (Inr (), startHeartbeat nid s4))
                 else
                   (let s2 = modify_node nid (\<lambda>n. n\<lparr>status := Follower\<rparr>) s1;
                        s3 = broadcast (NodeUpdate nid Follower None) s2;
                        (h, s4) = setTimeout (CompetitionRetry nid) 5000 s3
                    in (Inr (), modify_node nid (\<lambda>n. n\<lparr>competitionTimer := Some h\<rparr>) s4))))"

text \<open>The callback of the retry timer set by a node that lost.\<close>

definition competitionRetry :: "string \<Rightarrow> real \<Rightarrow> LeaderElection \<Rightarrow> LeaderElection" where
  "competitionRetry nid random s =
     (case get_node nid s of
        None \<Rightarrow> s
      | Some node \<Rightarrow>
          if running s \<and> status node \<noteq> Crashed then startNodeCompetition nid random s else s)"

text \<open>
  The callback of the heartbeat interval; \<open>later\<close> is the time of the second round trip
  of a renewal on Redis.
\<close>

definition heartbeatTick ::
  "string \<Rightarrow> int \<Rightarrow> int \<Rightarrow> int \<Rightarrow> real \<Rightarrow> faults \<Rightarrow> LeaderElection \<Rightarrow> unit result" where
  "heartbeatTick nid now later now' random faults s =
     (case get_node nid s of
        None \<Rightarrow> (Inr (), s)
      | Some node \<Rightarrow>
          if \<not> running s \<or> status node = Crashed \<or> status node \<noteq> Leader then
            (Inr (), s\<lparr>timers := clearInterval (heartbeatTimer node) (timers s)\<rparr>)
          else
            and_then
              (if currentDatabase s = MongoDB then renewMongoLease nid now faults s
               else renewRedisLease nid now later faults s)
              (\<lambda>renewed s1.
                 if renewed then
                   (let s2 = modify_node nid (\<lambda>n. n\<lparr>lease := Some (now' + LEASE_DURATION)\<rparr>) s1
                    in (Inr (), broadcast (NodeUpdate nid Leader (Some (now' + LEASE_DURATION))) s2))
                 else
                   (let s2 = modify_node nid (\<lambda>n. n\<lparr>status := Follower, lease := None\<rparr>) s1;
                        s3 = s2\<lparr>timers := clearInterval (heartbeatTimer node) (timers s2)\<rparr>;
                        s4 = modify_node nid (\<lambda>n. n\<lparr>heartbeatTimer := None\<rparr>) s3;
                        s5 = broadcast (LeaderLost nid) s4;
                        s6 = broadcast (NodeUpdate nid Follower None) s5
                    in (Inr (), startNodeCompetition nid random s6))))"

subsection \<open>The commands\<close>

definition stopElection :: "faults \<Rightarrow> LeaderElection \<Rightarrow> unit result" where
  "stopElection faults s =
     (let s1 = s\<lparr>running := False\<rparr>;
          s2 = s1\<lparr>timers :=
                    fold (\<lambda>(k, node) pending.
                            clearTimeout (competitionTimer node)
                              (clearInterval (heartbeatTimer node) pending))
                      (nodes s1) (timers s1),
                  nodes :=
                    map (\<lambda>(k, node). (k, node\<lparr>heartbeatTimer := None, competitionTimer := None\<rparr>))
                      (nodes s1)\<rparr>
      in
        and_then
          (if mongoClient s2 \<noteq> None then
             and_then (mongo MongoClose faults (\<lambda>docs. (Inr (), docs)) s2)
               (\<lambda>_ s3. (Inr (), s3\<lparr>mongoClient := None, leaderCollection := None\<rparr>))
           else (Inr (), s2))
          (\<lambda>_ s3.
             if redisClient s3 \<noteq> None then
               and_then (redis RedisQuit faults (\<lambda>keys. (Inr (), keys)) s3)
                 (\<lambda>_ s4. (Inr (), s4\<lparr>redisClient := None\<rparr>))
             else (Inr (), s3)))"

definition resetElection :: "faults \<Rightarrow> LeaderElection \<Rightarrow> unit result" where
  "resetElection faults s =
     and_then (stopElection faults s)
       (\<lambda>_ s1.
          (let s2 = s1\<lparr>nodes := map (\<lambda>(k, node). (k, node\<lparr>status := Idle, lease := None\<rparr>)) (nodes s1)\<rparr>
           in (Inr (), broadcast ElectionReset s2)))"

definition crashNode :: "string \<Rightarrow> faults \<Rightarrow> LeaderElection \<Rightarrow> unit result" where
  "crashNode nid faults s =
     (case get_node nid s of
        None \<Rightarrow> (Inr (), s)
      | Some node \<Rightarrow>
          if status node = Crashed then (Inr (), s)
          else
            (let wasLeader = (status node = Leader);
                 s1 = s\<lparr>timers := clearTimeout (competitionTimer node)
                                    (clearInterval (heartbeatTimer node) (timers s))\<rparr>;
                 s2 = modify_node nid
                        (\<lambda>n. n\<lparr>heartbeatTimer := None, competitionTimer := None,
                               status := Crashed, lease := None\<rparr>) s1;
                 s3 = broadcast (NodeCrashed nid) s2
             in
               if wasLeader then
                 and_then
                   (if currentDatabase s3 = MongoDB then releaseMongoLock faults s3
                    else releaseRedisLock faults s3)
                   (\<lambda>_ s4. (Inr (), broadcast (LeaderLost nid) s4))
               else (Inr (), s3)))"

text \<open>
  \<open>startElection\<close> calls \<open>stopElection\<close> without awaiting it. The call runs up to its
  first \<open>await\<close>: the flag and the timers are done, and \<open>close()\<close> (or, with no MongoDB
  client, \<open>quit()\<close>) has been called. What follows that \<open>await\<close> is left in \<open>suspended\<close>
  and cannot run before \<open>startElection\<close> reaches an \<open>await\<close> of its own; a rejection is
  lost, and with no client open the call is over at once.
\<close>

definition stopElection_unawaited :: "faults \<Rightarrow> LeaderElection \<Rightarrow> LeaderElection" where
  "stopElection_unawaited faults s =
     (let s1 = s\<lparr>running := False\<rparr>;
          s2 = s1\<lparr>timers :=
                    fold (\<lambda>(k, node) pending.
                            clearTimeout (competitionTimer node)
                              (clearInterval (heartbeatTimer node) pending))
                      (nodes s1) (timers s1),
                  nodes :=
                    map (\<lambda>(k, node). (k, node\<lparr>heartbeatTimer := None, competitionTimer := None\<rparr>))
                      (nodes s1)\<rparr>
      in
        if mongoClient s2 \<noteq> None then
          (case mongo MongoClose faults (\<lambda>docs. (Inr (), docs)) s2 of
             (Inl e, s3) \<Rightarrow> s3
           | (Inr u, s3) \<Rightarrow> s3\<lparr>suspended := suspended s3 @ [AfterClose]\<rparr>)
        else if redisClient s2 \<noteq> None then
          (case redis RedisQuit faults (\<lambda>keys. (Inr (), keys)) s2 of
             (Inl e, s3) \<Rightarrow> s3
           | (Inr u, s3) \<Rightarrow> s3\<lparr>suspended := suspended s3 @ [AfterQuit]\<rparr>)
        else s2)"

text \<open>
  \<open>sched\<close> says which suspended continuations run while \<open>connect()\<close> and while the
  clearing call are pending; those it leaves out run later, by \<open>resume\<close>.
\<close>

definition startElection ::
  "database \<Rightarrow> (string \<Rightarrow> real) \<Rightarrow> schedule \<Rightarrow> faults \<Rightarrow> LeaderElection \<Rightarrow> unit result" where
  "startElection db random sched faults s =
     (let s0 = (if running s then stopElection_unawaited faults s else s);
          s1 = s0\<lparr>currentDatabase := db, running := True\<rparr>
      in
        and_then (if db = MongoDB then initMongo sched faults s1 else initRedis sched faults s1)
          (\<lambda>_ s2.
             (let s3 = broadcast (ElectionStarted db) s2
              in (Inr (),
                  fold (\<lambda>nid st.
                          case get_node nid st of
                            None \<Rightarrow> st
                          | Some node \<Rightarrow>
                              if status node \<noteq> Crashed then startNodeCompetition nid (random nid) st
                              else st)
                    (map fst (nodes s3)) s3))))"

subsection \<open>The event loop\<close>

definition run_callback ::
  "callback \<Rightarrow> int \<Rightarrow> int \<Rightarrow> int \<Rightarrow> real \<Rightarrow> faults \<Rightarrow> LeaderElection \<Rightarrow> unit result" where
  "run_callback cb now later now' random faults s =
     (case cb of
        CompetitionAttempt nid \<Rightarrow> competitionAttempt nid now now' faults s
      | CompetitionRetry nid \<Rightarrow> (Inr (), competitionRetry nid random s)
      | HeartbeatTick nid \<Rightarrow> heartbeatTick nid now later now' random faults s)"

text \<open>A pending timer fires: a timeout leaves the table, an interval stays.\<close>

definition fire ::
  "handle \<Rightarrow> int \<Rightarrow> int \<Rightarrow> int \<Rightarrow> real \<Rightarrow> faults \<Rightarrow> LeaderElection \<Rightarrow> unit result" where
  "fire h now later now' random faults s =
     (case timers s h of
        None \<Rightarrow> (Inr (), s)
      | Some (Timeout cb ms) \<Rightarrow>
          run_callback cb now later now' random faults (s\<lparr>timers := (timers s)(h := None)\<rparr>)
      | Some (Interval cb ms) \<Rightarrow> run_callback cb now later now' random faults s)"

text \<open>The invariant of the data model: a node holds a lease exactly while it is the leader.\<close>

definition lease_iff_leader :: "LeaderElection \<Rightarrow> bool" where
  "lease_iff_leader s = list_all (\<lambda>(k, node). (lease node \<noteq> None) = (status node = Leader)) (nodes s)"

text \<open>The calls a transition from \<open>s\<close> to \<open>s'\<close> made on the database clients.\<close>

definition calls_made :: "LeaderElection \<Rightarrow> LeaderElection \<Rightarrow> command list" where
  "calls_made s s' = drop (length (commands s)) (commands s')"

section \<open>Auxiliary facts\<close>

lemma and_then_Inr [simp]: "and_then (Inr a, s) k = k a s"
  by (simp add: and_then_def)

lemma and_then_Inl [simp]: "and_then (Inl e, s) k = (Inl e, s)"
  by (simp add: and_then_def)

lemmas backend_defs = tryAcquireMongoLeadership_def tryAcquireRedisLeadership_def renewMongoLease_def
  renewRedisLease_def releaseMongoLock_def releaseRedisLock_def mongo_def redis_def try_catch_def
  findOneAndUpdate_def insertOne_def deleteOne_def redis_set_nx_px_def redis_get_def redis_pExpire_def
  redis_del_def has_expiresAt_def

lemma LeaderDocument_overwrite:
  "d\<lparr>nodeId := a, expiresAt := b, updatedAt := c\<rparr> = \<lparr>nodeId = a, expiresAt = b, updatedAt = c\<rparr>"
  by (cases d) simp

subsection \<open>The node map and the fields a helper leaves alone\<close>

lemma map_of_modify:
  "map_of (map (\<lambda>(k, n). if k = nid then (k, f n) else (k, n)) xs) x =
     (if x = nid then map_option f (map_of xs x) else map_of xs x)"
  by (induction xs) auto

lemma get_node_modify_node [simp]:
  "get_node x (modify_node nid f s) = (if x = nid then map_option f (get_node x s) else get_node x s)"
  by (simp add: get_node_def modify_node_def map_of_modify)

lemma get_node_frame [simp]:
  "get_node x (broadcast e s) = get_node x s"
  "get_node x (timers_update ft s) = get_node x s"
  "get_node x (next_handle_update fh s) = get_node x s"
  "get_node x (running_update fr s) = get_node x s"
  "get_node x (commands_update fc s) = get_node x s"
  "get_node x (leader_docs_update fd s) = get_node x s"
  "get_node x (redis_keys_update fk s) = get_node x s"
  by (simp_all add: get_node_def broadcast_def)

lemma modify_node_frame [simp]:
  "timers (modify_node nid f s) = timers s"
  "next_handle (modify_node nid f s) = next_handle s"
  "broadcasts (modify_node nid f s) = broadcasts s"
  "commands (modify_node nid f s) = commands s"
  "leader_docs (modify_node nid f s) = leader_docs s"
  "redis_keys (modify_node nid f s) = redis_keys s"
  "running (modify_node nid f s) = running s"
  "currentDatabase (modify_node nid f s) = currentDatabase s"
  "mongoClient (modify_node nid f s) = mongoClient s"
  "redisClient (modify_node nid f s) = redisClient s"
  "leaderCollection (modify_node nid f s) = leaderCollection s"
  by (simp_all add: modify_node_def)

lemma broadcast_frame [simp]:
  "timers (broadcast e s) = timers s"
  "next_handle (broadcast e s) = next_handle s"
  "broadcasts (broadcast e s) = broadcasts s @ [e]"
  "commands (broadcast e s) = commands s"
  "leader_docs (broadcast e s) = leader_docs s"
  "redis_keys (broadcast e s) = redis_keys s"
  "running (broadcast e s) = running s"
  "currentDatabase (broadcast e s) = currentDatabase s"
  "mongoClient (broadcast e s) = mongoClient s"
  "redisClient (broadcast e s) = redisClient s"
  "leaderCollection (broadcast e s) = leaderCollection s"
  "nodes (broadcast e s) = nodes s"
  by (simp_all add: broadcast_def)

subsection \<open>Acquire, renew and release, call by call\<close>

lemma renewMongoLease_owner:
  "leaderCollection s \<noteq> None \<Longrightarrow> faults MongoFindOneAndUpdate = None \<Longrightarrow>
   leader_docs s ''current-leader'' = Some d \<Longrightarrow> nodeId d = nid \<Longrightarrow>
   renewMongoLease nid now faults s =
     (Inr True, s\<lparr>leader_docs := (leader_docs s)(''current-leader'' \<mapsto>
                      d\<lparr>expiresAt := now + LEASE_DURATION, updatedAt := now\<rparr>),
                  commands := commands s @ [MongoFindOneAndUpdate]\<rparr>)"
  by (auto simp: backend_defs Let_def)

lemma renewMongoLease_other:
  "leaderCollection s \<noteq> None \<Longrightarrow> faults MongoFindOneAndUpdate = None \<Longrightarrow>
   \<not> (\<exists>d. leader_docs s ''current-leader'' = Some d \<and> nodeId d = nid) \<Longrightarrow>
   renewMongoLease nid now faults s = (Inr False, s\<lparr>commands := commands s @ [MongoFindOneAndUpdate]\<rparr>)"
  by (cases "leader_docs s ''current-leader''") (auto simp: backend_defs Let_def)

text \<open>
  The owner's renewal on Redis returns true; whether it extends anything depends on the
  key still being there when \<open>PEXPIRE\<close> runs.
\<close>

lemma redis_live_same_key:
  "redis_live now keys k = Some v \<Longrightarrow> redis_live later keys k = None \<or> redis_live later keys k = Some v"
  by (auto simp: redis_live_def split: option.splits if_splits)

lemma renewRedisLease_owner:
  "redisClient s \<noteq> None \<Longrightarrow> faults RedisGet = None \<Longrightarrow> faults RedisPExpire = None \<Longrightarrow>
   redis_live now (redis_keys s) ''leader'' = Some nid \<Longrightarrow>
   renewRedisLease nid now later faults s =
     (Inr True,
      s\<lparr>redis_keys := (if redis_live later (redis_keys s) ''leader'' = None then redis_keys s
                        else (redis_keys s)(''leader'' \<mapsto> (nid, later + LEASE_DURATION))),
        commands := commands s @ [RedisGet, RedisPExpire]\<rparr>)"
  using redis_live_same_key [of now "redis_keys s" "''leader''" nid later]
  by (auto simp: backend_defs Let_def)

lemma renewRedisLease_other:
  "redisClient s \<noteq> None \<Longrightarrow> faults RedisGet = None \<Longrightarrow>
   redis_live now (redis_keys s) ''leader'' \<noteq> Some nid \<Longrightarrow>
   renewRedisLease nid now later faults s = (Inr False, s\<lparr>commands := commands s @ [RedisGet]\<rparr>)"
  by (auto simp: backend_defs Let_def)

lemma tryAcquireMongoLeadership_owner:
  "fst (tryAcquireMongoLeadership x now faults s) = Inr True \<Longrightarrow>
   leaderCollection (snd (tryAcquireMongoLeadership x now faults s)) = leaderCollection s \<and>
   (\<exists>d. leader_docs (snd (tryAcquireMongoLeadership x now faults s)) ''current-leader'' = Some d \<and>
        nodeId d = x)"
  by (cases "leaderCollection s"; cases "faults MongoFindOneAndUpdate"; cases "faults MongoInsertOne";
      cases "leader_docs s ''current-leader''")
     (auto simp: backend_defs Let_def split: if_splits)

lemma tryAcquireRedisLeadership_owner:
  "fst (tryAcquireRedisLeadership x now faults s) = Inr True \<Longrightarrow>
   redisClient (snd (tryAcquireRedisLeadership x now faults s)) = redisClient s \<and>
   redis_keys (snd (tryAcquireRedisLeadership x now faults s)) ''leader'' = Some (x, now + LEASE_DURATION)"
  by (cases "redisClient s"; cases "faults RedisSet")
     (auto simp: backend_defs Let_def split: if_splits)

text \<open>
  One call after another: once an acquisition has succeeded at time \<open>t\<close>, no acquisition
  made while that lease runs succeeds, whoever makes it and whatever rejects.
\<close>

lemma tryAcquireMongoLeadership_record:
  "fst (tryAcquireMongoLeadership x t faults s) = Inr True \<Longrightarrow>
   leader_docs (snd (tryAcquireMongoLeadership x t faults s)) ''current-leader'' =
     Some \<lparr>nodeId = x, expiresAt = t + LEASE_DURATION, updatedAt = t\<rparr>"
  by (cases "leaderCollection s"; cases "faults MongoFindOneAndUpdate"; cases "faults MongoInsertOne";
      cases "leader_docs s ''current-leader''")
     (auto simp: backend_defs Let_def LeaderDocument_overwrite split: if_splits)

lemma tryAcquireMongoLeadership_excludes_second:
  assumes "fst (tryAcquireMongoLeadership x t faults s) = Inr True" "t' \<le> t + LEASE_DURATION"
  shows "fst (tryAcquireMongoLeadership y t' faults' (snd (tryAcquireMongoLeadership x t faults s))) =
           Inr False"
proof -
  define s1 where "s1 = snd (tryAcquireMongoLeadership x t faults s)"
  have d: "leader_docs s1 ''current-leader'' =
             Some \<lparr>nodeId = x, expiresAt = t + LEASE_DURATION, updatedAt = t\<rparr>"
    unfolding s1_def using assms(1) by (rule tryAcquireMongoLeadership_record)
  have "fst (tryAcquireMongoLeadership y t' faults' s1) = Inr False"
    using d assms(2)
    by (cases "faults' MongoFindOneAndUpdate"; cases "faults' MongoInsertOne")
       (auto simp: backend_defs Let_def)
  then show ?thesis by (simp add: s1_def)
qed

lemma tryAcquireRedisLeadership_excludes_second:
  assumes "fst (tryAcquireRedisLeadership x t faults s) = Inr True" "t' < t + LEASE_DURATION"
  shows "fst (tryAcquireRedisLeadership y t' faults' (snd (tryAcquireRedisLeadership x t faults s))) =
           Inr False"
proof -
  define s1 where "s1 = snd (tryAcquireRedisLeadership x t faults s)"
  have d: "redis_keys s1 ''leader'' = Some (x, t + LEASE_DURATION)"
    unfolding s1_def using assms(1) tryAcquireRedisLeadership_owner [of x t faults s] by simp
  have "fst (tryAcquireRedisLeadership y t' faults' s1) = Inr False"
    using d assms(2)
    by (cases "faults' RedisSet") (auto simp: backend_defs Let_def redis_live_def)
  then show ?thesis by (simp add: s1_def)
qed

lemma renewMongoLease_fenced:
  assumes "leaderCollection s \<noteq> None" "faults MongoFindOneAndUpdate = None" "x \<noteq> nid"
    and "fst (tryAcquireMongoLeadership x t faults s) = Inr True"
    and "s' = snd (tryAcquireMongoLeadership x t faults s)"
  shows "renewMongoLease nid now faults s' = (Inr False, s'\<lparr>commands := commands s' @ [MongoFindOneAndUpdate]\<rparr>)"
  using assms tryAcquireMongoLeadership_owner [of x t faults s]
  by (intro renewMongoLease_other) auto

lemma renewRedisLease_fenced:
  assumes "redisClient s \<noteq> None" "faults RedisGet = None" "x \<noteq> nid"
    and "fst (tryAcquireRedisLeadership x t faults s) = Inr True"
    and "s' = snd (tryAcquireRedisLeadership x t faults s)"
  shows "renewRedisLease nid now later faults s' = (Inr False, s'\<lparr>commands := commands s' @ [RedisGet]\<rparr>)"
  using assms tryAcquireRedisLeadership_owner [of x t faults s]
  by (intro renewRedisLease_other) (auto simp: redis_live_def)

lemma tryAcquireMongoLeadership_catches:
  "(\<exists>b. fst (tryAcquireMongoLeadership nid now faults s) = Inr b) \<and>
   ((\<exists>c \<in> set (calls_made s (snd (tryAcquireMongoLeadership nid now faults s))). faults c \<noteq> None)
      \<longrightarrow> fst (tryAcquireMongoLeadership nid now faults s) = Inr False)"
  by (cases "faults MongoFindOneAndUpdate"; cases "faults MongoInsertOne";
      cases "leader_docs s ''current-leader''")
     (auto simp: backend_defs calls_made_def Let_def)

lemma tryAcquireRedisLeadership_catches:
  "(\<exists>b. fst (tryAcquireRedisLeadership nid now faults s) = Inr b) \<and>
   ((\<exists>c \<in> set (calls_made s (snd (tryAcquireRedisLeadership nid now faults s))). faults c \<noteq> None)
      \<longrightarrow> fst (tryAcquireRedisLeadership nid now faults s) = Inr False)"
  by (cases "faults RedisSet") (auto simp: backend_defs calls_made_def Let_def)

lemma renewMongoLease_catches:
  "(\<exists>b. fst (renewMongoLease nid now faults s) = Inr b) \<and>
   ((\<exists>c \<in> set (calls_made s (snd (renewMongoLease nid now faults s))). faults c \<noteq> None)
      \<longrightarrow> fst (renewMongoLease nid now faults s) = Inr False)"
  by (cases "faults MongoFindOneAndUpdate"; cases "leader_docs s ''current-leader''")
     (auto simp: backend_defs calls_made_def Let_def)

lemma renewRedisLease_catches:
  "(\<exists>b. fst (renewRedisLease nid now later faults s) = Inr b) \<and>
   ((\<exists>c \<in> set (calls_made s (snd (renewRedisLease nid now later faults s))). faults c \<noteq> None)
      \<longrightarrow> fst (renewRedisLease nid now later faults s) = Inr False)"
  by (cases "faults RedisGet"; cases "faults RedisPExpire";
      cases "redis_live later (redis_keys s) ''leader''")
     (auto simp: backend_defs calls_made_def Let_def)

lemma renewMongoLease_frame:
  "nodes (snd (renewMongoLease nid now faults s)) = nodes s \<and>
   timers (snd (renewMongoLease nid now faults s)) = timers s \<and>
   next_handle (snd (renewMongoLease nid now faults s)) = next_handle s \<and>
   broadcasts (snd (renewMongoLease nid now faults s)) = broadcasts s"
  by (cases "faults MongoFindOneAndUpdate"; cases "leader_docs s ''current-leader''")
     (simp_all add: backend_defs Let_def)

lemma renewRedisLease_frame:
  "nodes (snd (renewRedisLease nid now later faults s)) = nodes s \<and>
   timers (snd (renewRedisLease nid now later faults s)) = timers s \<and>
   next_handle (snd (renewRedisLease nid now later faults s)) = next_handle s \<and>
   broadcasts (snd (renewRedisLease nid now later faults s)) = broadcasts s"
  by (cases "faults RedisGet"; cases "faults RedisPExpire";
      cases "redis_live later (redis_keys s) ''leader''")
     (simp_all add: backend_defs Let_def)

text \<open>Release with an open connection: one delete is sent, and unless it rejects the record is gone.\<close>

lemma releaseMongoLock_deletes:
  "leaderCollection s \<noteq> None \<Longrightarrow>
   releaseMongoLock faults s =
     (Inr (), if faults MongoDeleteOne = None
              then s\<lparr>commands := commands s @ [MongoDeleteOne],
                     leader_docs := (leader_docs s)(''current-leader'' := None)\<rparr>
              else s\<lparr>commands := commands s @ [MongoDeleteOne]\<rparr>)"
  by (cases "faults MongoDeleteOne") (auto simp: backend_defs)

lemma releaseRedisLock_deletes:
  "redisClient s \<noteq> None \<Longrightarrow>
   releaseRedisLock faults s =
     (Inr (), if faults RedisDel = None
              then s\<lparr>commands := commands s @ [RedisDel],
                     redis_keys := (redis_keys s)(''leader'' := None)\<rparr>
              else s\<lparr>commands := commands s @ [RedisDel]\<rparr>)"
  by (cases "faults RedisDel") (auto simp: backend_defs)

lemma release_fields:
  "fst (releaseMongoLock faults s) = Inr ()"
  "nodes (snd (releaseMongoLock faults s)) = nodes s"
  "timers (snd (releaseMongoLock faults s)) = timers s"
  "broadcasts (snd (releaseMongoLock faults s)) = broadcasts s"
  "fst (releaseRedisLock faults s) = Inr ()"
  "nodes (snd (releaseRedisLock faults s)) = nodes s"
  "timers (snd (releaseRedisLock faults s)) = timers s"
  "broadcasts (snd (releaseRedisLock faults s)) = broadcasts s"
  by (cases "faults MongoDeleteOne"; cases "faults RedisDel"; simp add: backend_defs)+

subsection \<open>Competition, heartbeat, crash, stop\<close>

lemma startNodeCompetition_effect:
  assumes "get_node nid s = Some n" "status n \<noteq> Crashed"
  shows "get_node nid (startNodeCompetition nid random s) =
           Some (n\<lparr>status := Competing, competitionTimer := Some (next_handle s)\<rparr>)"
    and "timers (startNodeCompetition nid random s) =
           (timers s)(next_handle s \<mapsto> Timeout (CompetitionAttempt nid) (random * 2000))"
    and "broadcasts (startNodeCompetition nid random s) = broadcasts s @ [NodeUpdate nid Competing None]"
    and "next_handle (startNodeCompetition nid random s) = Suc (next_handle s)"
  using assms by (simp_all add: startNodeCompetition_def Let_def setTimeout_def)

text \<open>Entering the competition sets the status and leaves the \<open>lease\<close> field as it was.\<close>

lemma startNodeCompetition_keeps_lease:
  assumes "get_node nid s = Some n" "status n \<noteq> Crashed"
  shows "map_option lease (get_node nid (startNodeCompetition nid random s)) = Some (lease n)"
  using startNodeCompetition_effect(1) [OF assms] by simp

lemma startNodeCompetition_backend:
  "commands (startNodeCompetition nid random s) = commands s \<and>
   leader_docs (startNodeCompetition nid random s) = leader_docs s \<and>
   redis_keys (startNodeCompetition nid random s) = redis_keys s"
  by (simp add: startNodeCompetition_def Let_def setTimeout_def split: option.splits)

lemma heartbeatTick_lost:
  assumes "running s" "get_node nid s = Some node" "status node = Leader"
    and "(if currentDatabase s = MongoDB then renewMongoLease nid now faults s
          else renewRedisLease nid now later faults s) = (Inr False, sr)"
  shows "heartbeatTick nid now later now' random faults s =
     (Inr (),
      startNodeCompetition nid random
        (broadcast (NodeUpdate nid Follower None)
          (broadcast (LeaderLost nid)
            (modify_node nid (\<lambda>n. n\<lparr>heartbeatTimer := None\<rparr>)
               ((modify_node nid (\<lambda>n. n\<lparr>status := Follower, lease := None\<rparr>) sr)
                  \<lparr>timers := clearInterval (heartbeatTimer node) (timers sr)\<rparr>)))))"
  using assms by (simp add: heartbeatTick_def Let_def)

text \<open>Losing an acquisition race is what arms the fixed 5000 ms retry.\<close>

lemma competitionAttempt_lost:
  assumes "running s" "get_node nid s = Some node" "status node \<noteq> Crashed"
    and "(if currentDatabase s = MongoDB then tryAcquireMongoLeadership nid now faults s
          else tryAcquireRedisLeadership nid now faults s) = (Inr False, sa)"
  shows "competitionAttempt nid now now' faults s =
     (Inr (),
      modify_node nid (\<lambda>n. n\<lparr>competitionTimer := Some (next_handle sa)\<rparr>)
        ((broadcast (NodeUpdate nid Follower None) (modify_node nid (\<lambda>n. n\<lparr>status := Follower\<rparr>) sa))
           \<lparr>timers := (timers sa)(next_handle sa \<mapsto> Timeout (CompetitionRetry nid) 5000),
             next_handle := Suc (next_handle sa)\<rparr>))"
  using assms by (simp add: competitionAttempt_def Let_def setTimeout_def)

lemma crashNode_leader:
  "get_node nid s = Some node \<Longrightarrow> status node = Leader \<Longrightarrow>
   crashNode nid faults s =
     (Inr (), broadcast (LeaderLost nid)
        (snd ((if currentDatabase s = MongoDB then releaseMongoLock faults else releaseRedisLock faults)
           (broadcast (NodeCrashed nid)
             (modify_node nid (\<lambda>n. n\<lparr>heartbeatTimer := None, competitionTimer := None,
                               status := Crashed, lease := None\<rparr>)
                (s\<lparr>timers := clearTimeout (competitionTimer node)
                                    (clearInterval (heartbeatTimer node) (timers s))\<rparr>))))))"
  by (cases "faults MongoDeleteOne"; cases "faults RedisDel")
     (simp_all add: crashNode_def Let_def broadcast_def modify_node_def backend_defs)

lemma crashNode_other:
  "get_node nid s = Some node \<Longrightarrow> status node \<noteq> Leader \<Longrightarrow> status node \<noteq> Crashed \<Longrightarrow>
   crashNode nid faults s =
     (Inr (), broadcast (NodeCrashed nid)
             (modify_node nid (\<lambda>n. n\<lparr>heartbeatTimer := None, competitionTimer := None,
                               status := Crashed, lease := None\<rparr>)
                (s\<lparr>timers := clearTimeout (competitionTimer node)
                                    (clearInterval (heartbeatTimer node) (timers s))\<rparr>)))"
  by (simp add: crashNode_def Let_def)

lemma stopElection_closed:
  "mongoClient s = None \<Longrightarrow> redisClient s = None \<Longrightarrow>
   stopElection faults s =
     (Inr (),
      s\<lparr>running := False,
        timers := fold (\<lambda>(k, node) pending.
                            clearTimeout (competitionTimer node)
                              (clearInterval (heartbeatTimer node) pending))
                      (nodes s) (timers s),
        nodes := map (\<lambda>(k, node). (k, node\<lparr>heartbeatTimer := None, competitionTimer := None\<rparr>))
                      (nodes s)\<rparr>)"
  by (simp add: stopElection_def Let_def)

lemma fold_clear_none:
  "list_all (\<lambda>(k, node). heartbeatTimer node = None \<and> competitionTimer node = None) xs \<Longrightarrow>
   fold (\<lambda>(k, node) pending.
           clearTimeout (competitionTimer node) (clearInterval (heartbeatTimer node) pending))
     xs pending = pending"
  by (induction xs arbitrary: pending) (auto simp: clearTimeout_def clearInterval_def)

lemma resetElection_closed:
  "mongoClient s = None \<Longrightarrow> redisClient s = None \<Longrightarrow>
   resetElection faults s =
     (Inr (),
      s\<lparr>running := False,
        timers := fold (\<lambda>(k, node) pending.
                            clearTimeout (competitionTimer node)
                              (clearInterval (heartbeatTimer node) pending))
                      (nodes s) (timers s),
        nodes := map (\<lambda>(k, node). (k, node\<lparr>heartbeatTimer := None, competitionTimer := None,
                                              status := Idle, lease := None\<rparr>))
                      (nodes s),
        broadcasts := broadcasts s @ [ElectionReset]\<rparr>)"
  by (simp add: resetElection_def stopElection_closed broadcast_def split_def comp_def)

subsection \<open>Starting again while an election runs\<close>

text \<open>
  Awaited, \<open>stopElection\<close> is the un-awaited call followed by its continuations, when
  \<open>close()\<close> and \<open>quit()\<close> do not reject.
\<close>

lemma stopElection_unawaited_resumed:
  assumes "faults MongoClose = None" "faults RedisQuit = None" "suspended s = []"
  shows "resume 0 faults (resume 0 faults (stopElection_unawaited faults s)) =
           snd (stopElection faults s)"
  using assms
  by (cases "mongoClient s"; cases "redisClient s")
     (simp_all add: stopElection_unawaited_def stopElection_def resume_def mongo_def redis_def Let_def)

text \<open>
  \<open>node-1\<close> leads an election on MongoDB and \<open>startElection('mongodb')\<close> is called again.
  If \<open>close()\<close> settles while \<open>connect()\<close> is pending, the continuation nulls the client
  just assigned and the command ends in a \<open>TypeError\<close>; if it settles while
  \<open>deleteMany\<close> is pending, or after the command, the command returns and the engine
  is left running without a connection.
\<close>

lemma restart_while_running:
  "(let s0 = constructor Map.empty Map.empty;
        s1 = snd (startElection MongoDB (\<lambda>nid. 1 / 2) ([], []) no_faults s0);
        s2 = snd (fire 0 1000 1000 1001 (1 / 2) no_faults s1);
        early = startElection MongoDB (\<lambda>nid. 1 / 2) ([0], []) no_faults s2;
        late = startElection MongoDB (\<lambda>nid. 1 / 2) ([], [0]) no_faults s2;
        after = startElection MongoDB (\<lambda>nid. 1 / 2) ([], []) no_faults s2
    in running s2 \<and>
       fst early = Inl TypeError \<and> running (snd early) \<and> mongoClient (snd early) = None \<and>
       broadcasts (snd early) = broadcasts s2 \<and>
       fst late = Inr () \<and> running (snd late) \<and> mongoClient (snd late) = None \<and>
       leaderCollection (snd late) = None \<and> suspended (snd late) = [] \<and>
       fst after = Inr () \<and> leaderCollection (snd after) \<noteq> None \<and>
       suspended (snd after) = [AfterClose] \<and>
       leaderCollection (resume 0 no_faults (snd after)) = None \<and>
       mongoClient (resume 0 no_faults (snd after)) = None)"
  by code_simp

subsection \<open>With no backend connection\<close>

lemma crashNode_closed:
  assumes "leaderCollection s = None" "redisClient s = None"
  shows "fst (crashNode nid faults s) = Inr () \<and>
         commands (snd (crashNode nid faults s)) = commands s \<and>
         leader_docs (snd (crashNode nid faults s)) = leader_docs s \<and>
         redis_keys (snd (crashNode nid faults s)) = redis_keys s"
proof (cases "get_node nid s")
  case None
  then show ?thesis by (simp add: crashNode_def)
next
  case (Some node)
  show ?thesis
  proof (cases "status node = Crashed")
    case True
    with Some show ?thesis by (simp add: crashNode_def)
  next
    case False
    with Some assms show ?thesis
      by (cases "status node = Leader")
         (simp_all add: crashNode_leader crashNode_other releaseMongoLock_def releaseRedisLock_def)
  qed
qed

lemma competitionAttempt_closed:
  assumes "leaderCollection s = None" "redisClient s = None"
  shows "fst (competitionAttempt nid now now' faults s) = Inr () \<and>
         commands (snd (competitionAttempt nid now now' faults s)) = commands s"
  using assms
  by (simp add: competitionAttempt_def tryAcquireMongoLeadership_def tryAcquireRedisLeadership_def
      Let_def setTimeout_def split: option.splits)

lemma heartbeatTick_closed:
  assumes "leaderCollection s = None" "redisClient s = None"
  shows "fst (heartbeatTick nid now later now' random faults s) = Inr () \<and>
         commands (snd (heartbeatTick nid now later now' random faults s)) = commands s"
  using assms
  by (simp add: heartbeatTick_def renewMongoLease_def renewRedisLease_def Let_def
      startNodeCompetition_backend split: option.splits)

subsection \<open>The lease invariant, transition by transition\<close>

text \<open>
  \<open>lease_iff_leader\<close> is kept by stopping, crashing and the heartbeat, and established by a
  reset; entering the competition and the competition attempt keep it for a node that is
  not the leader at that moment. (Node ids are distinct: the constructor makes them so
  and no transition changes them.)
\<close>

lemma map_modify_absent:
  "nid \<notin> fst ` set xs \<Longrightarrow> map (\<lambda>(k, m). if k = nid then (k, f m) else (k, m)) xs = xs"
  by (induction xs) auto

lemma list_all_modify:
  "distinct (map fst xs) \<Longrightarrow> map_of xs nid = Some n \<Longrightarrow> list_all P xs \<Longrightarrow> P (nid, f n) \<Longrightarrow>
   list_all P (map (\<lambda>(k, m). if k = nid then (k, f m) else (k, m)) xs)"
  by (induction xs) (auto simp: map_modify_absent split: if_splits)

lemma lease_iff_leader_modify:
  assumes "distinct (map fst (nodes s))" "get_node nid s = Some n" "lease_iff_leader s"
    and "(lease (f n) \<noteq> None) = (status (f n) = Leader)"
  shows "lease_iff_leader (modify_node nid f s)"
  using assms
  unfolding lease_iff_leader_def modify_node_def get_node_def
  by (simp add: list_all_modify)

lemma fst_modify [simp]: "map fst (nodes (modify_node nid f s)) = map fst (nodes s)"
  by (simp add: modify_node_def comp_def split_def)

lemma nodes_stopElection:
  "nodes (snd (stopElection faults s)) =
     map (\<lambda>(k, node). (k, node\<lparr>heartbeatTimer := None, competitionTimer := None\<rparr>)) (nodes s)"
  by (cases "mongoClient s"; cases "redisClient s"; cases "faults MongoClose"; cases "faults RedisQuit")
     (simp_all add: stopElection_def Let_def mongo_def redis_def)

lemma stopElection_keeps_invariant:
  "lease_iff_leader (snd (stopElection faults s)) = lease_iff_leader s"
  by (simp add: lease_iff_leader_def nodes_stopElection list_all_iff split_def)

lemma resetElection_invariant:
  "fst (resetElection faults s) = Inr () \<Longrightarrow> lease_iff_leader (snd (resetElection faults s))"
  by (cases "stopElection faults s" rule: prod.exhaust; cases "fst (stopElection faults s)")
     (auto simp: resetElection_def lease_iff_leader_def list_all_iff split_def Let_def)

lemma lease_iff_leader_cong: "nodes s' = nodes s \<Longrightarrow> lease_iff_leader s' = lease_iff_leader s"
  by (simp add: lease_iff_leader_def)

lemma nodes_crashNode:
  "nodes (snd (crashNode nid faults s)) =
     (case get_node nid s of
        None \<Rightarrow> nodes s
      | Some node \<Rightarrow>
          if status node = Crashed then nodes s
          else nodes (modify_node nid (\<lambda>n. n\<lparr>heartbeatTimer := None, competitionTimer := None,
                               status := Crashed, lease := None\<rparr>) s))"
proof (cases "get_node nid s")
  case None
  then show ?thesis by (simp add: crashNode_def)
next
  case (Some node)
  then show ?thesis
    by (cases "status node = Crashed"; cases "status node = Leader")
       (simp_all add: crashNode_leader crashNode_other release_fields,
        simp_all add: crashNode_def modify_node_def)
qed

lemma crashNode_keeps_invariant:
  assumes "lease_iff_leader s"
  shows "lease_iff_leader (snd (crashNode nid faults s))"
proof -
  have "lease_iff_leader (modify_node nid (\<lambda>n. n\<lparr>heartbeatTimer := None, competitionTimer := None,
                               status := Crashed, lease := None\<rparr>) s)"
    using assms by (auto simp: lease_iff_leader_def modify_node_def list_all_iff split: if_splits)
  then show ?thesis
    using assms
    by (simp add: lease_iff_leader_def nodes_crashNode split: option.splits)
qed


lemma lease_iff_leader_frame [simp]:
  "lease_iff_leader (broadcast e s) = lease_iff_leader s"
  "lease_iff_leader (timers_update ft s) = lease_iff_leader s"
  "lease_iff_leader (next_handle_update fh s) = lease_iff_leader s"
  by (simp_all add: lease_iff_leader_def)

lemma lease_iff_leader_node:
  "lease_iff_leader s \<Longrightarrow> get_node nid s = Some n \<Longrightarrow> (lease n \<noteq> None) = (status n = Leader)"
  unfolding lease_iff_leader_def get_node_def list_all_iff
  by (auto dest!: map_of_SomeD)

lemma distinct_frame [simp]:
  "nodes (timers_update ft s) = nodes s"
  "nodes (next_handle_update fh s) = nodes s"
  by simp_all

lemma startNodeCompetition_eq:
  "get_node nid s = Some n \<Longrightarrow> status n \<noteq> Crashed \<Longrightarrow>
   startNodeCompetition nid random s =
     modify_node nid (\<lambda>n. n\<lparr>competitionTimer := Some (next_handle s)\<rparr>)
       ((broadcast (NodeUpdate nid Competing None) (modify_node nid (\<lambda>n. n\<lparr>status := Competing\<rparr>) s))
          \<lparr>timers := (timers s)(next_handle s \<mapsto> Timeout (CompetitionAttempt nid) (random * 2000)),
            next_handle := Suc (next_handle s)\<rparr>)"
  by (simp add: startNodeCompetition_def Let_def setTimeout_def)

lemma startNodeCompetition_keeps_invariant:
  assumes "distinct (map fst (nodes s))" "lease_iff_leader s"
    and "\<forall>n. get_node nid s = Some n \<longrightarrow> status n \<noteq> Leader"
  shows "lease_iff_leader (startNodeCompetition nid random s)"
proof (cases "get_node nid s")
  case None
  then show ?thesis using assms by (simp add: startNodeCompetition_def)
next
  case (Some n)
  show ?thesis
  proof (cases "status n = Crashed")
    case True
    with Some assms(2) show ?thesis by (simp add: startNodeCompetition_def)
  next
    case False
    have l: "lease n = None"
      using Some assms lease_iff_leader_node [of s nid n] by auto
    have 1: "lease_iff_leader (modify_node nid (\<lambda>n. n\<lparr>status := Competing\<rparr>) s)"
      using assms(1) Some assms(2) by (rule lease_iff_leader_modify) (simp add: l)
    show ?thesis
      unfolding startNodeCompetition_eq [OF Some False]
      by (rule lease_iff_leader_modify [where n = "n\<lparr>status := Competing\<rparr>"])
         (simp_all add: assms(1) Some 1 l)
  qed
qed

lemma startNodeCompetition_ids [simp]:
  "map fst (nodes (startNodeCompetition nid random s)) = map fst (nodes s)"
  by (simp add: startNodeCompetition_def Let_def setTimeout_def split: option.splits)

lemma heartbeatTick_renewed:
  assumes "running s" "get_node nid s = Some node" "status node = Leader"
    and "(if currentDatabase s = MongoDB then renewMongoLease nid now faults s
          else renewRedisLease nid now later faults s) = (Inr True, sr)"
  shows "heartbeatTick nid now later now' random faults s =
     (Inr (), broadcast (NodeUpdate nid Leader (Some (now' + LEASE_DURATION)))
                (modify_node nid (\<lambda>n. n\<lparr>lease := Some (now' + LEASE_DURATION)\<rparr>) sr))"
  using assms by (simp add: heartbeatTick_def Let_def)

lemma heartbeatTick_keeps_invariant:
  assumes "distinct (map fst (nodes s))" "lease_iff_leader s"
  shows "lease_iff_leader (snd (heartbeatTick nid now later now' random faults s))"
proof (cases "get_node nid s")
  case None
  then show ?thesis using assms by (simp add: heartbeatTick_def)
next
  case (Some node)
  define r where "r = (if currentDatabase s = MongoDB then renewMongoLease nid now faults s
                       else renewRedisLease nid now later faults s)"
  define sr where "sr = snd r"
  have frame: "nodes sr = nodes s"
    by (simp add: sr_def r_def renewMongoLease_frame renewRedisLease_frame)
  then have inv: "lease_iff_leader sr" "distinct (map fst (nodes sr))" "get_node nid sr = Some node"
    using assms Some by (simp_all add: lease_iff_leader_def get_node_def)
  have res: "r = (Inr True, sr) \<or> r = (Inr False, sr)"
    using renewMongoLease_catches [of nid now faults s] renewRedisLease_catches [of nid now later faults s]
    by (auto simp: r_def sr_def prod_eq_iff)
  show ?thesis
  proof (cases "\<not> running s \<or> status node = Crashed \<or> status node \<noteq> Leader")
    case True
    with Some assms(2) show ?thesis by (auto simp add: heartbeatTick_def)
  next
    case False
    then have run: "running s" and st: "status node = Leader" by auto
    from res show ?thesis
    proof
      assume eq: "r = (Inr True, sr)"
      have "lease_iff_leader (modify_node nid (\<lambda>n. n\<lparr>lease := Some (now' + LEASE_DURATION)\<rparr>) sr)"
        using inv(2,3,1) by (rule lease_iff_leader_modify) (simp add: st)
      then show ?thesis
        using heartbeatTick_renewed [OF run Some st eq [unfolded r_def], of now' random]
        by simp
    next
      assume eq: "r = (Inr False, sr)"
      define s2 where "s2 = modify_node nid (\<lambda>n. n\<lparr>status := Follower, lease := None\<rparr>) sr"
      define s4 where "s4 = modify_node nid (\<lambda>n. n\<lparr>heartbeatTimer := None\<rparr>)
                               (s2\<lparr>timers := clearInterval (heartbeatTimer node) (timers sr)\<rparr>)"
      have i2: "lease_iff_leader s2"
        unfolding s2_def using inv(2,3,1) by (rule lease_iff_leader_modify) simp
      have n2: "get_node nid s2 = Some (node\<lparr>status := Follower, lease := None\<rparr>)"
        by (simp add: s2_def inv)
      have d2: "distinct (map fst (nodes s2))"
        by (simp add: s2_def inv)
      have i4: "lease_iff_leader s4"
        unfolding s4_def
        by (rule lease_iff_leader_modify [where n = "node\<lparr>status := Follower, lease := None\<rparr>"])
           (simp_all add: i2 n2 d2)
      have n4: "get_node nid s4 = Some (node\<lparr>status := Follower, lease := None, heartbeatTimer := None\<rparr>)"
        by (simp add: s4_def n2)
      have "lease_iff_leader (startNodeCompetition nid random
              (broadcast (NodeUpdate nid Follower None) (broadcast (LeaderLost nid) s4)))"
        by (rule startNodeCompetition_keeps_invariant) (simp_all add: i4 n4, simp add: s4_def d2)
      then show ?thesis
        using heartbeatTick_lost [OF run Some st eq [unfolded r_def], of now' random]
        by (simp add: s4_def s2_def)
    qed
  qed
qed


lemma tryAcquireMongoLeadership_frame:
  "nodes (snd (tryAcquireMongoLeadership nid now faults s)) = nodes s \<and>
   timers (snd (tryAcquireMongoLeadership nid now faults s)) = timers s \<and>
   next_handle (snd (tryAcquireMongoLeadership nid now faults s)) = next_handle s \<and>
   broadcasts (snd (tryAcquireMongoLeadership nid now faults s)) = broadcasts s"
  by (cases "faults MongoFindOneAndUpdate"; cases "faults MongoInsertOne";
      cases "leader_docs s ''current-leader''")
     (simp_all add: backend_defs Let_def)

lemma tryAcquireRedisLeadership_frame:
  "nodes (snd (tryAcquireRedisLeadership nid now faults s)) = nodes s \<and>
   timers (snd (tryAcquireRedisLeadership nid now faults s)) = timers s \<and>
   next_handle (snd (tryAcquireRedisLeadership nid now faults s)) = next_handle s \<and>
   broadcasts (snd (tryAcquireRedisLeadership nid now faults s)) = broadcasts s"
  by (cases "faults RedisSet") (simp_all add: backend_defs Let_def)

lemma competitionAttempt_won:
  assumes "running s" "get_node nid s = Some node" "status node \<noteq> Crashed"
    and "(if currentDatabase s = MongoDB then tryAcquireMongoLeadership nid now faults s
          else tryAcquireRedisLeadership nid now faults s) = (Inr True, sa)"
  shows "competitionAttempt nid now now' faults s =
     (Inr (),
      startHeartbeat nid
        (broadcast (LeaderElected nid)
          (broadcast (NodeUpdate nid Leader (Some (now' + LEASE_DURATION)))
            (modify_node nid (\<lambda>n. n\<lparr>status := Leader, lease := Some (now' + LEASE_DURATION)\<rparr>) sa))))"
  using assms by (simp add: competitionAttempt_def Let_def)

lemma startHeartbeat_eq:
  "get_node nid s = Some n \<Longrightarrow>
   startHeartbeat nid s =
     modify_node nid (\<lambda>n. n\<lparr>heartbeatTimer := Some (next_handle s)\<rparr>)
       (s\<lparr>timers := (timers s)(next_handle s \<mapsto> Interval (HeartbeatTick nid) HEARTBEAT_INTERVAL),
          next_handle := Suc (next_handle s)\<rparr>)"
  by (simp add: startHeartbeat_def setInterval_def)

lemma competitionAttempt_keeps_invariant:
  assumes "distinct (map fst (nodes s))" "lease_iff_leader s"
    and "\<forall>n. get_node nid s = Some n \<longrightarrow> status n \<noteq> Leader"
  shows "lease_iff_leader (snd (competitionAttempt nid now now' faults s))"
proof (cases "get_node nid s")
  case None
  then show ?thesis using assms by (simp add: competitionAttempt_def)
next
  case (Some node)
  define r where "r = (if currentDatabase s = MongoDB then tryAcquireMongoLeadership nid now faults s
                       else tryAcquireRedisLeadership nid now faults s)"
  define sa where "sa = snd r"
  have frame: "nodes sa = nodes s"
    by (simp add: sa_def r_def tryAcquireMongoLeadership_frame tryAcquireRedisLeadership_frame)
  then have inv: "lease_iff_leader sa" "distinct (map fst (nodes sa))" "get_node nid sa = Some node"
    using assms Some by (simp_all add: lease_iff_leader_def get_node_def)
  have l: "lease node = None"
    using Some assms lease_iff_leader_node [of s nid node] by auto
  have res: "r = (Inr True, sa) \<or> r = (Inr False, sa)"
    using tryAcquireMongoLeadership_catches [of nid now faults s]
      tryAcquireRedisLeadership_catches [of nid now faults s]
    by (auto simp: r_def sa_def prod_eq_iff)
  show ?thesis
  proof (cases "\<not> running s \<or> status node = Crashed")
    case True
    with Some assms(2) show ?thesis by (auto simp add: competitionAttempt_def)
  next
    case False
    then have run: "running s" and st: "status node \<noteq> Crashed" by auto
    from res show ?thesis
    proof
      assume eq: "r = (Inr True, sa)"
      define s2 where
        "s2 = modify_node nid (\<lambda>n. n\<lparr>status := Leader, lease := Some (now' + LEASE_DURATION)\<rparr>) sa"
      define s4 where
        "s4 = broadcast (LeaderElected nid) (broadcast (NodeUpdate nid Leader (Some (now' + LEASE_DURATION))) s2)"
      have i2: "lease_iff_leader s2"
        unfolding s2_def using inv(2,3,1) by (rule lease_iff_leader_modify) simp
      have n4: "get_node nid s4 =
                  Some (node\<lparr>status := Leader, lease := Some (now' + LEASE_DURATION)\<rparr>)"
        by (simp add: s4_def s2_def inv)
      have d4: "distinct (map fst (nodes s4))"
        by (simp add: s4_def s2_def inv)
      have i4: "lease_iff_leader s4"
        by (simp add: s4_def i2)
      have "lease_iff_leader (startHeartbeat nid s4)"
        unfolding startHeartbeat_eq [OF n4]
        by (rule lease_iff_leader_modify
              [where n = "node\<lparr>status := Leader, lease := Some (now' + LEASE_DURATION)\<rparr>"])
           (simp_all add: d4 n4 i4)
      then show ?thesis
        using competitionAttempt_won [OF run Some st, of now faults sa now'] eq
        by (simp add: r_def s4_def s2_def)
    next
      assume eq: "r = (Inr False, sa)"
      define s2 where "s2 = modify_node nid (\<lambda>n. n\<lparr>status := Follower\<rparr>) sa"
      define s4 where
        "s4 = (broadcast (NodeUpdate nid Follower None) s2)
                \<lparr>timers := (timers sa)(next_handle sa \<mapsto> Timeout (CompetitionRetry nid) 5000),
                  next_handle := Suc (next_handle sa)\<rparr>"
      have i2: "lease_iff_leader s2"
        unfolding s2_def using inv(2,3,1) by (rule lease_iff_leader_modify) (simp add: l)
      have n4: "get_node nid s4 = Some (node\<lparr>status := Follower\<rparr>)"
        by (simp add: s4_def s2_def inv)
      have d4: "distinct (map fst (nodes s4))"
        by (simp add: s4_def s2_def inv)
      have i4: "lease_iff_leader s4"
        by (simp add: s4_def i2)
      have "lease_iff_leader (modify_node nid (\<lambda>n. n\<lparr>competitionTimer := Some (next_handle sa)\<rparr>) s4)"
        by (rule lease_iff_leader_modify [where n = "node\<lparr>status := Follower\<rparr>"])
           (simp_all add: d4 n4 i4 l)
      then show ?thesis
        using competitionAttempt_lost [OF run Some st, of now faults sa now'] eq
        by (simp add: r_def s4_def s2_def)
    qed
  qed
qed

section \<open>The claims\<close>

subsection \<open>C2: the lease field and the leader status\<close>

text \<open>
  C2 says that after every engine operation a node's lease is non-null exactly when its
  status is \<open>Leader\<close>. The run below starts an election on MongoDB, lets the competition
  timer of \<open>node-1\<close> (handle 0) fire at time 1000 so that \<open>node-1\<close> wins, stops the
  election and starts it again. The invariant holds up to and including the stop; the
  second start puts \<open>node-1\<close> back into \<open>Competing\<close>, announces \<open>lease: null\<close> for it and
  leaves its lease field at 11001.
\<close>

theorem restart_leaves_stale_lease:
  "(let s0 = constructor Map.empty Map.empty;
        s1 = snd (startElection MongoDB (\<lambda>nid. 1 / 2) ([], []) no_faults s0);
        s2 = snd (fire 0 1000 1000 1001 (1 / 2) no_faults s1);
        s3 = snd (stopElection no_faults s2);
        s4 = snd (startElection MongoDB (\<lambda>nid. 1 / 2) ([], []) no_faults s3)
    in lease_iff_leader s0 \<and> lease_iff_leader s1 \<and> lease_iff_leader s2 \<and> lease_iff_leader s3 \<and>
       map_option status (get_node ''node-1'' s3) = Some Leader \<and>
       \<not> lease_iff_leader s4 \<and>
       map_option status (get_node ''node-1'' s4) = Some Competing \<and>
       map_option lease (get_node ''node-1'' s4) = Some (Some 11001) \<and>
       broadcasts s4 = broadcasts s3 @
         [ElectionStarted MongoDB, NodeUpdate ''node-1'' Competing None,
          NodeUpdate ''node-2'' Competing None, NodeUpdate ''node-3'' Competing None,
          NodeUpdate ''node-4'' Competing None, NodeUpdate ''node-5'' Competing None])"
  by code_simp

subsection \<open>C3: acquiring on the conditional-write backend\<close>

text \<open>
  C3: with the collection open and no call rejecting, \<open>tryAcquireMongoLeadership nid now\<close>
  returns true and leaves the record \<open>{nodeId: nid, expiresAt: now + LEASE_DURATION}\<close>
  exactly when there is no record or the record's \<open>expiresAt\<close> is below \<open>now\<close>. Otherwise
  it returns false and changes no record: the update matched nothing, the insert that
  followed met the duplicate key error 11000, and that error became the value false.
  Nothing but the record and the list of calls made changes in either case.
\<close>

theorem tryAcquireMongoLeadership_iff:
  "leaderCollection s \<noteq> None \<Longrightarrow> faults MongoFindOneAndUpdate = None \<Longrightarrow>
   faults MongoInsertOne = None \<Longrightarrow>
   (let r = tryAcquireMongoLeadership nid now faults s;
        held = leader_docs s ''current-leader'';
        doc = \<lparr>nodeId = nid, expiresAt = now + LEASE_DURATION, updatedAt = now\<rparr>
    in if held = None \<or> (\<exists>d. held = Some d \<and> expiresAt d < now)
       then fst r = Inr True \<and>
            snd r = s\<lparr>leader_docs := (leader_docs s)(''current-leader'' \<mapsto> doc),
                      commands := commands s @
                         (if held = None then [MongoFindOneAndUpdate, MongoInsertOne]
                          else [MongoFindOneAndUpdate])\<rparr>
       else fst r = Inr False \<and>
            snd r = s\<lparr>commands := commands s @ [MongoFindOneAndUpdate, MongoInsertOne]\<rparr> \<and>
            fst (insertOne ''current-leader'' doc (leader_docs s)) = Inl (Error (Some 11000)))"
  by (cases "leader_docs s ''current-leader''")
     (auto simp: backend_defs Let_def LeaderDocument_overwrite)

theorem tryAcquireMongoLeadership_iff_witness:
  "(let s0 = snd (initMongo ([], []) no_faults (constructor Map.empty Map.empty));
        r1 = tryAcquireMongoLeadership ''node-1'' 1000 no_faults s0;
        r2 = tryAcquireMongoLeadership ''node-2'' 5000 no_faults (snd r1);
        r3 = tryAcquireMongoLeadership ''node-2'' 11001 no_faults (snd r2)
    in fst r1 = Inr True \<and>
       leader_docs (snd r1) ''current-leader'' =
         Some \<lparr>nodeId = ''node-1'', expiresAt = 11000, updatedAt = 1000\<rparr> \<and>
       fst r2 = Inr False \<and> leader_docs (snd r2) = leader_docs (snd r1) \<and>
       fst r3 = Inr True \<and>
       leader_docs (snd r3) ''current-leader'' =
         Some \<lparr>nodeId = ''node-2'', expiresAt = 21001, updatedAt = 11001\<rparr>)"
proof -
  define s0 where "s0 = snd (initMongo ([], []) no_faults (constructor Map.empty Map.empty))"
  define s1 where "s1 = snd (tryAcquireMongoLeadership ''node-1'' 1000 no_faults s0)"
  define s2 where "s2 = snd (tryAcquireMongoLeadership ''node-2'' 5000 no_faults s1)"
  have nf: "no_faults MongoFindOneAndUpdate = None" "no_faults MongoInsertOne = None"
    by (simp_all add: no_faults_def)
  have c0: "leaderCollection s0 \<noteq> None" and d0: "leader_docs s0 ''current-leader'' = None"
    by (simp_all add: s0_def initMongo_def awaiting_def mongo_def deleteMany_def no_faults_def)
  have r1: "fst (tryAcquireMongoLeadership ''node-1'' 1000 no_faults s0) = Inr True"
    and d1: "leader_docs s1 ''current-leader'' =
               Some \<lparr>nodeId = ''node-1'', expiresAt = 11000, updatedAt = 1000\<rparr>"
    and c1: "leaderCollection s1 \<noteq> None"
    using tryAcquireMongoLeadership_iff [OF c0 nf, of "''node-1''" 1000] c0 d0
    by (simp_all add: s1_def Let_def LEASE_DURATION_def)
  have r2: "fst (tryAcquireMongoLeadership ''node-2'' 5000 no_faults s1) = Inr False"
    and d2: "leader_docs s2 = leader_docs s1" and c2: "leaderCollection s2 \<noteq> None"
    using tryAcquireMongoLeadership_iff [OF c1 nf, of "''node-2''" 5000] c1 d1
    by (simp_all add: s2_def Let_def)
  have r3: "fst (tryAcquireMongoLeadership ''node-2'' 11001 no_faults s2) = Inr True"
    and d3: "leader_docs (snd (tryAcquireMongoLeadership ''node-2'' 11001 no_faults s2)) ''current-leader'' =
               Some \<lparr>nodeId = ''node-2'', expiresAt = 21001, updatedAt = 11001\<rparr>"
    using tryAcquireMongoLeadership_iff [OF c2 nf, of "''node-2''" 11001] d1 d2
    by (simp_all add: Let_def LEASE_DURATION_def)
  show ?thesis
    using r1 d1 r2 d2 r3 d3 by (simp add: Let_def s0_def s1_def s2_def)
qed

subsection \<open>C4: renewing\<close>

text \<open>
  C4 as stated fails on Redis: the renewal reads the owner with \<open>GET\<close> and refreshes the
  expiry with a separate \<open>PEXPIRE\<close> whose answer it never looks at. Below, \<open>node-1\<close>
  holds the key until 11000; its renewal reads the key at 10999 and refreshes it at
  11001, when the key is gone: the call returns true and no expiry has been extended.
\<close>

theorem renew_iff_owner_counterexample:
  "(let k0 = snd (initRedis ([], []) no_faults (constructor Map.empty Map.empty));
        k1 = snd (tryAcquireRedisLeadership ''node-1'' 1000 no_faults k0);
        r = renewRedisLease ''node-1'' 10999 11001 no_faults k1
    in redis_keys k1 ''leader'' = Some (''node-1'', 11000) \<and>
       redis_live 10999 (redis_keys k1) ''leader'' = Some ''node-1'' \<and>
       fst r = Inr True \<and>
       redis_keys (snd r) ''leader'' = Some (''node-1'', 11000) \<and>
       redis_live 11001 (redis_keys (snd r)) ''leader'' = None)"
  by (simp add: Let_def initRedis_def awaiting_def constructor_def no_faults_def backend_defs
      redis_live_def LEASE_DURATION_def)

text \<open>
  C4, amended. With the connection open and no call rejecting: on MongoDB, renewing
  returns true and sets the expiry to \<open>now + LEASE_DURATION\<close> exactly when the record's
  owner is the caller, and otherwise returns false and changes no record. On Redis,
  renewing returns true exactly when the key read by \<open>GET\<close> is there and holds the
  caller's id; the expiry is then set to \<open>later + LEASE_DURATION\<close> only if the key is
  still there when \<open>PEXPIRE\<close> runs, and otherwise nothing is extended; when it returns
  false it changes no record. On both backends, once a node \<open>x\<close> has acquired, a renewal
  by a different node returns false and changes no record.
\<close>

theorem renew_iff_owner:
  "(leaderCollection s \<noteq> None \<and> faults MongoFindOneAndUpdate = None \<longrightarrow>
      (case leader_docs s ''current-leader'' of
         None \<Rightarrow> renewMongoLease nid now faults s =
                   (Inr False, s\<lparr>commands := commands s @ [MongoFindOneAndUpdate]\<rparr>)
       | Some d \<Rightarrow>
           if nodeId d = nid then
             renewMongoLease nid now faults s =
               (Inr True,
                s\<lparr>leader_docs := (leader_docs s)(''current-leader'' \<mapsto>
                                     d\<lparr>expiresAt := now + LEASE_DURATION, updatedAt := now\<rparr>),
                  commands := commands s @ [MongoFindOneAndUpdate]\<rparr>)
           else renewMongoLease nid now faults s =
                  (Inr False, s\<lparr>commands := commands s @ [MongoFindOneAndUpdate]\<rparr>)) \<and>
      (\<forall>x t. x \<noteq> nid \<and> fst (tryAcquireMongoLeadership x t faults s) = Inr True \<longrightarrow>
         (let s' = snd (tryAcquireMongoLeadership x t faults s)
          in renewMongoLease nid now faults s' =
               (Inr False, s'\<lparr>commands := commands s' @ [MongoFindOneAndUpdate]\<rparr>)))) \<and>
   (redisClient s \<noteq> None \<and> faults RedisGet = None \<and> faults RedisPExpire = None \<longrightarrow>
      (if redis_live now (redis_keys s) ''leader'' = Some nid then
         renewRedisLease nid now later faults s =
           (Inr True,
            s\<lparr>redis_keys :=
                (if redis_live later (redis_keys s) ''leader'' = None then redis_keys s
                 else (redis_keys s)(''leader'' \<mapsto> (nid, later + LEASE_DURATION))),
              commands := commands s @ [RedisGet, RedisPExpire]\<rparr>)
       else renewRedisLease nid now later faults s =
              (Inr False, s\<lparr>commands := commands s @ [RedisGet]\<rparr>)) \<and>
      (\<forall>x t. x \<noteq> nid \<and> fst (tryAcquireRedisLeadership x t faults s) = Inr True \<longrightarrow>
         (let s' = snd (tryAcquireRedisLeadership x t faults s)
          in renewRedisLease nid now later faults s' =
               (Inr False, s'\<lparr>commands := commands s' @ [RedisGet]\<rparr>))))"
proof (intro conjI impI allI)
  assume "leaderCollection s \<noteq> None \<and> faults MongoFindOneAndUpdate = None"
  then show "case leader_docs s ''current-leader'' of
         None \<Rightarrow> renewMongoLease nid now faults s =
                   (Inr False, s\<lparr>commands := commands s @ [MongoFindOneAndUpdate]\<rparr>)
       | Some d \<Rightarrow>
           if nodeId d = nid then
             renewMongoLease nid now faults s =
               (Inr True,
                s\<lparr>leader_docs := (leader_docs s)(''current-leader'' \<mapsto>
                                     d\<lparr>expiresAt := now + LEASE_DURATION, updatedAt := now\<rparr>),
                  commands := commands s @ [MongoFindOneAndUpdate]\<rparr>)
           else renewMongoLease nid now faults s =
                  (Inr False, s\<lparr>commands := commands s @ [MongoFindOneAndUpdate]\<rparr>)"
    by (cases "leader_docs s ''current-leader''")
       (simp_all add: renewMongoLease_owner renewMongoLease_other)
next
  fix x t
  assume "leaderCollection s \<noteq> None \<and> faults MongoFindOneAndUpdate = None"
    and "x \<noteq> nid \<and> fst (tryAcquireMongoLeadership x t faults s) = Inr True"
  then show "let s' = snd (tryAcquireMongoLeadership x t faults s)
          in renewMongoLease nid now faults s' =
               (Inr False, s'\<lparr>commands := commands s' @ [MongoFindOneAndUpdate]\<rparr>)"
    unfolding Let_def by (intro renewMongoLease_fenced [of s faults x nid t]) simp_all
next
  assume "redisClient s \<noteq> None \<and> faults RedisGet = None \<and> faults RedisPExpire = None"
  then show "if redis_live now (redis_keys s) ''leader'' = Some nid then
         renewRedisLease nid now later faults s =
           (Inr True,
            s\<lparr>redis_keys :=
                (if redis_live later (redis_keys s) ''leader'' = None then redis_keys s
                 else (redis_keys s)(''leader'' \<mapsto> (nid, later + LEASE_DURATION))),
              commands := commands s @ [RedisGet, RedisPExpire]\<rparr>)
       else renewRedisLease nid now later faults s =
              (Inr False, s\<lparr>commands := commands s @ [RedisGet]\<rparr>)"
    by (simp add: renewRedisLease_owner renewRedisLease_other)
next
  fix x t
  assume "redisClient s \<noteq> None \<and> faults RedisGet = None \<and> faults RedisPExpire = None"
    and "x \<noteq> nid \<and> fst (tryAcquireRedisLeadership x t faults s) = Inr True"
  then show "let s' = snd (tryAcquireRedisLeadership x t faults s)
          in renewRedisLease nid now later faults s' =
               (Inr False, s'\<lparr>commands := commands s' @ [RedisGet]\<rparr>)"
    unfolding Let_def by (intro renewRedisLease_fenced [of s faults x nid t]) simp_all
qed

theorem renew_iff_owner_witness:
  "(let m0 = snd (initMongo ([], []) no_faults (constructor Map.empty Map.empty));
        m1 = snd (tryAcquireMongoLeadership ''node-1'' 1000 no_faults m0);
        k0 = snd (initRedis ([], []) no_faults (constructor Map.empty Map.empty));
        k1 = snd (tryAcquireRedisLeadership ''node-1'' 1000 no_faults k0)
    in renewMongoLease ''node-2'' 4000 no_faults m1 =
         (Inr False, m1\<lparr>commands := commands m1 @ [MongoFindOneAndUpdate]\<rparr>) \<and>
       renewRedisLease ''node-2'' 4000 4001 no_faults k1 =
         (Inr False, k1\<lparr>commands := commands k1 @ [RedisGet]\<rparr>) \<and>
       renewMongoLease ''node-2'' 4000 no_faults m0 =
         (Inr False, m0\<lparr>commands := commands m0 @ [MongoFindOneAndUpdate]\<rparr>) \<and>
       renewRedisLease ''node-2'' 4000 4001 no_faults k0 =
         (Inr False, k0\<lparr>commands := commands k0 @ [RedisGet]\<rparr>) \<and>
       fst (renewMongoLease ''node-1'' 4000 no_faults m1) = Inr True \<and>
       leader_docs (snd (renewMongoLease ''node-1'' 4000 no_faults m1)) ''current-leader'' =
         Some \<lparr>nodeId = ''node-1'', expiresAt = 14000, updatedAt = 4000\<rparr> \<and>
       fst (renewRedisLease ''node-1'' 4000 4001 no_faults k1) = Inr True \<and>
       redis_keys (snd (renewRedisLease ''node-1'' 4000 4001 no_faults k1)) ''leader'' =
         Some (''node-1'', 14001) \<and>
       fst (renewRedisLease ''node-1'' 10999 11001 no_faults k1) = Inr True \<and>
       redis_keys (snd (renewRedisLease ''node-1'' 10999 11001 no_faults k1)) = redis_keys k1)"
proof -
  define m0 where "m0 = snd (initMongo ([], []) no_faults (constructor Map.empty Map.empty))"
  define k0 where "k0 = snd (initRedis ([], []) no_faults (constructor Map.empty Map.empty))"
  have nf: "no_faults MongoFindOneAndUpdate = None" "no_faults MongoInsertOne = None"
    "no_faults RedisGet = None" "no_faults RedisPExpire = None" "no_faults RedisSet = None"
    by (simp_all add: no_faults_def)
  have m: "leaderCollection m0 \<noteq> None" "leader_docs m0 ''current-leader'' = None"
    by (simp_all add: m0_def initMongo_def awaiting_def mongo_def deleteMany_def no_faults_def)
  have k0: "redisClient k0 \<noteq> None" "redis_keys k0 ''leader'' = None"
    by (simp_all add: k0_def initRedis_def awaiting_def redis_def redis_del_def no_faults_def)
  have k: "redisClient k0 \<noteq> None" "redis_live 1000 (redis_keys k0) ''leader'' = None"
    "redis_live 4000 (redis_keys k0) ''leader'' = None"
    using k0 by (simp_all add: redis_live_def)
  have am: "fst (tryAcquireMongoLeadership ''node-1'' 1000 no_faults m0) = Inr True"
    using m nf by (simp add: backend_defs Let_def)
  have ak: "fst (tryAcquireRedisLeadership ''node-1'' 1000 no_faults k0) = Inr True"
    using k nf by (simp add: backend_defs Let_def)
  define m1 where "m1 = snd (tryAcquireMongoLeadership ''node-1'' 1000 no_faults m0)"
  define k1 where "k1 = snd (tryAcquireRedisLeadership ''node-1'' 1000 no_faults k0)"
  have m1: "leaderCollection m1 \<noteq> None"
    "leader_docs m1 ''current-leader'' =
       Some \<lparr>nodeId = ''node-1'', expiresAt = 11000, updatedAt = 1000\<rparr>"
    using m nf by (simp_all add: m1_def backend_defs Let_def LEASE_DURATION_def)
  have k1: "redisClient k1 \<noteq> None" "redis_live 4000 (redis_keys k1) ''leader'' = Some ''node-1''"
    "redis_live 4001 (redis_keys k1) ''leader'' = Some ''node-1''"
    "redis_live 10999 (redis_keys k1) ''leader'' = Some ''node-1''"
    "redis_live 11001 (redis_keys k1) ''leader'' = None"
    using k0 nf by (simp_all add: k1_def backend_defs Let_def LEASE_DURATION_def redis_live_def)
  have others: "renewMongoLease ''node-2'' 4000 no_faults m1 =
         (Inr False, m1\<lparr>commands := commands m1 @ [MongoFindOneAndUpdate]\<rparr>) \<and>
       renewRedisLease ''node-2'' 4000 4001 no_faults k1 =
         (Inr False, k1\<lparr>commands := commands k1 @ [RedisGet]\<rparr>) \<and>
       renewMongoLease ''node-2'' 4000 no_faults m0 =
         (Inr False, m0\<lparr>commands := commands m0 @ [MongoFindOneAndUpdate]\<rparr>) \<and>
       renewRedisLease ''node-2'' 4000 4001 no_faults k0 =
         (Inr False, k0\<lparr>commands := commands k0 @ [RedisGet]\<rparr>)"
    using renew_iff_owner [where s = m0 and faults = no_faults
        and nid = "''node-2''" and now = 4000 and later = 4001] m nf am
      renew_iff_owner [where s = k0 and faults = no_faults
        and nid = "''node-2''" and now = 4000 and later = 4001] k ak
    by (simp add: Let_def m1_def k1_def)
  have owner: "fst (renewMongoLease ''node-1'' 4000 no_faults m1) = Inr True \<and>
       leader_docs (snd (renewMongoLease ''node-1'' 4000 no_faults m1)) ''current-leader'' =
         Some \<lparr>nodeId = ''node-1'', expiresAt = 14000, updatedAt = 4000\<rparr> \<and>
       fst (renewRedisLease ''node-1'' 4000 4001 no_faults k1) = Inr True \<and>
       redis_keys (snd (renewRedisLease ''node-1'' 4000 4001 no_faults k1)) ''leader'' =
         Some (''node-1'', 14001)"
    using renew_iff_owner [where s = m1 and faults = no_faults
        and nid = "''node-1''" and now = 4000 and later = 4001] m1
      renew_iff_owner [where s = k1 and faults = no_faults
        and nid = "''node-1''" and now = 4000 and later = 4001] k1 nf
    by (simp add: LEASE_DURATION_def)
  have gone: "fst (renewRedisLease ''node-1'' 10999 11001 no_faults k1) = Inr True \<and>
       redis_keys (snd (renewRedisLease ''node-1'' 10999 11001 no_faults k1)) = redis_keys k1"
    using renew_iff_owner [where s = k1 and faults = no_faults
        and nid = "''node-1''" and now = 10999 and later = 11001] k1 nf
    by simp
  show ?thesis
    using others owner gone by (simp add: Let_def m0_def k0_def m1_def k1_def)
qed

subsection \<open>C5: crashing a node\<close>

text \<open>
  C5: \<open>crashNode\<close> on a node that exists and has not crashed returns normally, cancels the
  node's heartbeat and competition timers and nulls both handles, sets the status to
  \<open>Crashed\<close> and the lease to null, and broadcasts \<open>node-crashed\<close>. If the node was the
  leader, the backend's release follows and then \<open>leader-lost\<close> is broadcast, after
  \<open>node-crashed\<close>; if it was not, no call reaches a backend and nothing more is broadcast.
\<close>

theorem crashNode_effect:
  "get_node nid s = Some node \<Longrightarrow> status node \<noteq> Crashed \<Longrightarrow>
   (let r = crashNode nid faults s; s' = snd r;
        released = snd ((if currentDatabase s = MongoDB then releaseMongoLock faults
                         else releaseRedisLock faults) s)
    in fst r = Inr () \<and>
       get_node nid s' = Some (node\<lparr>heartbeatTimer := None, competitionTimer := None,
                                    status := Crashed, lease := None\<rparr>) \<and>
       timers s' = clearTimeout (competitionTimer node) (clearInterval (heartbeatTimer node) (timers s)) \<and>
       (\<forall>h. heartbeatTimer node = Some h \<or> competitionTimer node = Some h \<longrightarrow> timers s' h = None) \<and>
       (if status node = Leader
        then broadcasts s' = broadcasts s @ [NodeCrashed nid, LeaderLost nid] \<and>
             commands s' = commands released \<and> leader_docs s' = leader_docs released \<and>
             redis_keys s' = redis_keys released
        else broadcasts s' = broadcasts s @ [NodeCrashed nid] \<and>
             commands s' = commands s \<and> leader_docs s' = leader_docs s \<and>
             redis_keys s' = redis_keys s))"
proof (cases "status node = Leader")
  case True
  assume "get_node nid s = Some node"
  then show ?thesis
    using True
    apply (simp add: crashNode_leader Let_def)
    apply (cases "faults MongoDeleteOne"; cases "faults RedisDel")
    apply (auto simp add: backend_defs clearTimeout_def clearInterval_def split: option.splits)
    done
next
  case False
  assume "get_node nid s = Some node" "status node \<noteq> Crashed"
  then show ?thesis
    using False
    by (auto simp add: crashNode_other Let_def clearTimeout_def clearInterval_def split: option.splits)
qed

theorem crashNode_effect_witness:
  "(let s0 = constructor Map.empty Map.empty;
        s1 = snd (startElection MongoDB (\<lambda>nid. 1 / 2) ([], []) no_faults s0);
        s2 = snd (fire 0 1000 1000 1001 (1 / 2) no_faults s1);
        leader = snd (crashNode ''node-1'' no_faults s2);
        other = snd (crashNode ''node-2'' no_faults s2)
    in map_option status (get_node ''node-1'' leader) = Some Crashed \<and>
       map_option lease (get_node ''node-1'' leader) = Some None \<and>
       timers leader 0 = None \<and> timers leader 5 = None \<and>
       broadcasts leader = broadcasts s2 @ [NodeCrashed ''node-1'', LeaderLost ''node-1''] \<and>
       commands leader = commands s2 @ [MongoDeleteOne] \<and>
       leader_docs leader ''current-leader'' = None \<and>
       map_option status (get_node ''node-2'' other) = Some Crashed \<and>
       timers other 1 = None \<and>
       broadcasts other = broadcasts s2 @ [NodeCrashed ''node-2''] \<and>
       commands other = commands s2 \<and> leader_docs other = leader_docs s2)"
proof -
  define s2 where "s2 = snd (fire 0 1000 1000 1001 (1 / 2) no_faults
     (snd (startElection MongoDB (\<lambda>nid. 1 / 2) ([], []) no_faults (constructor Map.empty Map.empty))))"
  have n1: "get_node ''node-1'' s2 =
      Some \<lparr>node_id = ''node-1'', status = Leader, lease = Some 11001, heartbeatTimer = Some 5,
            competitionTimer = Some 0\<rparr>"
    unfolding s2_def by code_simp
  have n2: "get_node ''node-2'' s2 =
      Some \<lparr>node_id = ''node-2'', status = Competing, lease = None, heartbeatTimer = None,
            competitionTimer = Some 1\<rparr>"
    unfolding s2_def by code_simp
  have db: "currentDatabase s2 = MongoDB" "leaderCollection s2 \<noteq> None"
    unfolding s2_def by code_simp+
  have "map_option status (get_node ''node-1'' (snd (crashNode ''node-1'' no_faults s2))) = Some Crashed \<and>
       map_option lease (get_node ''node-1'' (snd (crashNode ''node-1'' no_faults s2))) = Some None \<and>
       timers (snd (crashNode ''node-1'' no_faults s2)) 0 = None \<and>
       timers (snd (crashNode ''node-1'' no_faults s2)) 5 = None \<and>
       broadcasts (snd (crashNode ''node-1'' no_faults s2)) =
         broadcasts s2 @ [NodeCrashed ''node-1'', LeaderLost ''node-1''] \<and>
       commands (snd (crashNode ''node-1'' no_faults s2)) = commands s2 @ [MongoDeleteOne] \<and>
       leader_docs (snd (crashNode ''node-1'' no_faults s2)) ''current-leader'' = None"
    using crashNode_effect [OF n1, of no_faults] db
    by (simp add: Let_def releaseMongoLock_deletes no_faults_def clearTimeout_def clearInterval_def)
  moreover
  have "map_option status (get_node ''node-2'' (snd (crashNode ''node-2'' no_faults s2))) = Some Crashed \<and>
       timers (snd (crashNode ''node-2'' no_faults s2)) 1 = None \<and>
       broadcasts (snd (crashNode ''node-2'' no_faults s2)) = broadcasts s2 @ [NodeCrashed ''node-2''] \<and>
       commands (snd (crashNode ''node-2'' no_faults s2)) = commands s2 \<and>
       leader_docs (snd (crashNode ''node-2'' no_faults s2)) = leader_docs s2"
    using crashNode_effect [OF n2, of no_faults]
    by (simp add: Let_def clearTimeout_def clearInterval_def)
  ultimately show ?thesis
    by (simp add: Let_def s2_def)
qed

subsection \<open>C6: a heartbeat that fails to renew\<close>

text \<open>
  C6: when the heartbeat of a leader runs and its renewal returns false, the heartbeat
  interval is cancelled and its handle nulled, the lease is cleared, \<open>leader-lost\<close> and
  then the update to \<open>Follower\<close> are broadcast, and the node is \<open>Competing\<close> again at once:
  its new competition timer is the attempt after \<open>random * 2000\<close> ms, not the 5000 ms
  retry (which \<open>competitionAttempt_lost\<close> shows is armed by a lost acquisition).
\<close>

theorem heartbeat_failure_recompetes:
  "running s \<Longrightarrow> get_node nid s = Some node \<Longrightarrow> status node = Leader \<Longrightarrow>
   fst (if currentDatabase s = MongoDB then renewMongoLease nid now faults s
        else renewRedisLease nid now later faults s) = Inr False \<Longrightarrow>
   (let r = heartbeatTick nid now later now' random faults s; s' = snd r
    in fst r = Inr () \<and>
       get_node nid s' = Some (node\<lparr>status := Competing, lease := None, heartbeatTimer := None,
                                    competitionTimer := Some (next_handle s)\<rparr>) \<and>
       timers s' = (clearInterval (heartbeatTimer node) (timers s))
                     (next_handle s \<mapsto> Timeout (CompetitionAttempt nid) (random * 2000)) \<and>
       broadcasts s' = broadcasts s @
          [LeaderLost nid, NodeUpdate nid Follower None, NodeUpdate nid Competing None])"
proof -
  assume a: "running s" "get_node nid s = Some node" "status node = Leader"
    "fst (if currentDatabase s = MongoDB then renewMongoLease nid now faults s
        else renewRedisLease nid now later faults s) = Inr False"
  define sr where "sr = snd (if currentDatabase s = MongoDB then renewMongoLease nid now faults s
        else renewRedisLease nid now later faults s)"
  have r: "(if currentDatabase s = MongoDB then renewMongoLease nid now faults s
        else renewRedisLease nid now later faults s) = (Inr False, sr)"
    unfolding sr_def using a(4) by (simp add: prod_eq_iff)
  have frame: "nodes sr = nodes s" "timers sr = timers s"
    "next_handle sr = next_handle s" "broadcasts sr = broadcasts s"
    using r renewMongoLease_frame [of nid now faults s] renewRedisLease_frame [of nid now later faults s]
    by (auto split: if_splits)
  have node: "get_node nid sr = Some node"
    using a(2) frame(1) by (simp add: get_node_def)
  define s6 where "s6 = broadcast (NodeUpdate nid Follower None)
          (broadcast (LeaderLost nid)
            (modify_node nid (\<lambda>n. n\<lparr>heartbeatTimer := None\<rparr>)
               ((modify_node nid (\<lambda>n. n\<lparr>status := Follower, lease := None\<rparr>) sr)
                  \<lparr>timers := clearInterval (heartbeatTimer node) (timers sr)\<rparr>)))"
  have tick: "heartbeatTick nid now later now' random faults s = (Inr (), startNodeCompetition nid random s6)"
    unfolding s6_def using a(1-3) r by (rule heartbeatTick_lost)
  have n6: "get_node nid s6 = Some (node\<lparr>status := Follower, lease := None, heartbeatTimer := None\<rparr>)"
    by (simp add: s6_def node)
  have f6: "timers s6 = clearInterval (heartbeatTimer node) (timers s)"
    "next_handle s6 = next_handle s"
    "broadcasts s6 = broadcasts s @ [LeaderLost nid, NodeUpdate nid Follower None]"
    by (simp_all add: s6_def frame)
  show ?thesis
    using startNodeCompetition_effect [OF n6, of random]
    by (simp add: tick Let_def f6)
qed

theorem heartbeat_failure_recompetes_witness:
  "(let s0 = constructor Map.empty Map.empty;
        s1 = snd (startElection MongoDB (\<lambda>nid. 1 / 2) ([], []) no_faults s0);
        s2 = snd (fire 0 1000 1000 1001 (1 / 2) no_faults s1);
        down = (\<lambda>c. if c = MongoFindOneAndUpdate then Some (Error None) else None);
        s3 = snd (heartbeatTick ''node-1'' 4000 4000 4001 (1 / 4) down s2)
    in get_node ''node-1'' s3 =
         Some \<lparr>node_id = ''node-1'', status = Competing, lease = None, heartbeatTimer = None,
               competitionTimer = Some 6\<rparr> \<and>
       timers s3 5 = None \<and>
       timers s3 6 = Some (Timeout (CompetitionAttempt ''node-1'') 500) \<and>
       broadcasts s3 = broadcasts s2 @
         [LeaderLost ''node-1'', NodeUpdate ''node-1'' Follower None,
          NodeUpdate ''node-1'' Competing None])"
proof -
  define s2 where "s2 = snd (fire 0 1000 1000 1001 (1 / 2) no_faults
     (snd (startElection MongoDB (\<lambda>nid. 1 / 2) ([], []) no_faults (constructor Map.empty Map.empty))))"
  define down where "down = (\<lambda>c. if c = MongoFindOneAndUpdate then Some (Error None) else None)"
  have n1: "get_node ''node-1'' s2 =
      Some \<lparr>node_id = ''node-1'', status = Leader, lease = Some 11001, heartbeatTimer = Some 5,
            competitionTimer = Some 0\<rparr>"
    unfolding s2_def by code_simp
  have run: "running s2" and nh: "next_handle s2 = 6"
    unfolding s2_def by code_simp+
  have lost: "fst (if currentDatabase s2 = MongoDB then renewMongoLease ''node-1'' 4000 down s2
                   else renewRedisLease ''node-1'' 4000 4000 down s2) = Inr False"
    unfolding s2_def down_def by code_simp
  show ?thesis
    using heartbeat_failure_recompetes [OF run n1 _ lost, where now' = 4001 and random = "1 / 4"] nh
    by (simp add: Let_def s2_def [symmetric] down_def [symmetric] clearInterval_def)
qed

subsection \<open>C7: errors of the backend calls\<close>

text \<open>
  C7: on either backend, acquiring and renewing never end in an error, whatever state they
  start from and whichever calls reject; and when a call they made has rejected, their
  result is the value false, the same value a lost race gives.
\<close>

theorem backend_errors_become_false:
  "(let r = tryAcquireMongoLeadership nid now faults s
    in (\<exists>b. fst r = Inr b) \<and>
       ((\<exists>c \<in> set (calls_made s (snd r)). faults c \<noteq> None) \<longrightarrow> fst r = Inr False)) \<and>
   (let r = tryAcquireRedisLeadership nid now faults s
    in (\<exists>b. fst r = Inr b) \<and>
       ((\<exists>c \<in> set (calls_made s (snd r)). faults c \<noteq> None) \<longrightarrow> fst r = Inr False)) \<and>
   (let r = renewMongoLease nid now faults s
    in (\<exists>b. fst r = Inr b) \<and>
       ((\<exists>c \<in> set (calls_made s (snd r)). faults c \<noteq> None) \<longrightarrow> fst r = Inr False)) \<and>
   (let r = renewRedisLease nid now later faults s
    in (\<exists>b. fst r = Inr b) \<and>
       ((\<exists>c \<in> set (calls_made s (snd r)). faults c \<noteq> None) \<longrightarrow> fst r = Inr False))"
  unfolding Let_def
  using tryAcquireMongoLeadership_catches [of nid now faults s]
    tryAcquireRedisLeadership_catches [of nid now faults s]
    renewMongoLease_catches [of nid now faults s]
    renewRedisLease_catches [of nid now later faults s]
  by blast

theorem backend_errors_become_false_witness:
  "(let m0 = snd (initMongo ([], []) no_faults (constructor Map.empty Map.empty));
        k0 = snd (initRedis ([], []) no_faults (constructor Map.empty Map.empty));
        k1 = snd (tryAcquireRedisLeadership ''node-1'' 1000 no_faults k0);
        insert_fails = (\<lambda>c. if c = MongoInsertOne then Some (Error None) else None);
        update_fails = (\<lambda>c. if c = MongoFindOneAndUpdate then Some (Error (Some 6)) else None);
        set_fails = (\<lambda>c. if c = RedisSet then Some (Error None) else None);
        pexpire_fails = (\<lambda>c. if c = RedisPExpire then Some (Error None) else None)
    in fst (tryAcquireMongoLeadership ''node-1'' 1000 insert_fails m0) = Inr False \<and>
       fst (renewMongoLease ''node-1'' 1000 update_fails m0) = Inr False \<and>
       fst (tryAcquireRedisLeadership ''node-1'' 1000 set_fails k0) = Inr False \<and>
       fst (renewRedisLease ''node-1'' 4000 4001 pexpire_fails k1) = Inr False)"
proof -
  define m0 where "m0 = snd (initMongo ([], []) no_faults (constructor Map.empty Map.empty))"
  define k0 where "k0 = snd (initRedis ([], []) no_faults (constructor Map.empty Map.empty))"
  define k1 where "k1 = snd (tryAcquireRedisLeadership ''node-1'' 1000 no_faults k0)"
  define insert_fails where "insert_fails = (\<lambda>c. if c = MongoInsertOne then Some (Error None) else None)"
  define update_fails where
    "update_fails = (\<lambda>c. if c = MongoFindOneAndUpdate then Some (Error (Some 6)) else None)"
  define set_fails where "set_fails = (\<lambda>c. if c = RedisSet then Some (Error None) else None)"
  define pexpire_fails where "pexpire_fails = (\<lambda>c. if c = RedisPExpire then Some (Error None) else None)"
  have 1: "\<exists>c \<in> set (calls_made m0 (snd (tryAcquireMongoLeadership ''node-1'' 1000 insert_fails m0))).
             insert_fails c \<noteq> None"
    unfolding m0_def insert_fails_def by code_simp
  have 2: "\<exists>c \<in> set (calls_made m0 (snd (renewMongoLease ''node-1'' 1000 update_fails m0))).
             update_fails c \<noteq> None"
    unfolding m0_def update_fails_def by code_simp
  have 3: "\<exists>c \<in> set (calls_made k0 (snd (tryAcquireRedisLeadership ''node-1'' 1000 set_fails k0))).
             set_fails c \<noteq> None"
    unfolding k0_def set_fails_def by code_simp
  have 4: "\<exists>c \<in> set (calls_made k1 (snd (renewRedisLease ''node-1'' 4000 4001 pexpire_fails k1))).
             pexpire_fails c \<noteq> None"
    unfolding k1_def k0_def pexpire_fails_def by code_simp
  have "fst (tryAcquireMongoLeadership ''node-1'' 1000 insert_fails m0) = Inr False"
    using backend_errors_become_false [of "''node-1''" 1000 insert_fails m0] 1
    unfolding Let_def by blast
  moreover have "fst (renewMongoLease ''node-1'' 1000 update_fails m0) = Inr False"
    using backend_errors_become_false [of "''node-1''" 1000 update_fails m0] 2
    unfolding Let_def by blast
  moreover have "fst (tryAcquireRedisLeadership ''node-1'' 1000 set_fails k0) = Inr False"
    using backend_errors_become_false [of "''node-1''" 1000 set_fails k0] 3
    unfolding Let_def by blast
  moreover have "fst (renewRedisLease ''node-1'' 4000 4001 pexpire_fails k1) = Inr False"
    using backend_errors_become_false [of "''node-1''" 4000 pexpire_fails k1] 4
    unfolding Let_def by blast
  ultimately show ?thesis
    unfolding Let_def m0_def k0_def k1_def insert_fails_def update_fails_def set_fails_def
      pexpire_fails_def
    by blast
qed

subsection \<open>C8: resetting twice\<close>

text \<open>
  C8 as stated fails: \<open>resetElection\<close> broadcasts \<open>election-reset\<close> on every call, so on a
  freshly constructed engine, where no election is running, two calls in a row leave two
  such events, not one.
\<close>

theorem resetElection_twice_counterexample:
  "(let s0 = constructor Map.empty Map.empty;
        s1 = snd (resetElection no_faults s0);
        s2 = snd (resetElection no_faults s1)
    in \<not> running s0 \<and> broadcasts s0 = [] \<and> broadcasts s1 = [ElectionReset] \<and>
       broadcasts s2 = [ElectionReset, ElectionReset] \<and> broadcasts s2 \<noteq> broadcasts s1)"
  by (simp add: Let_def resetElection_closed constructor_def)

text \<open>
  C8, amended: when no election is running and no connection is open, every call of
  \<open>resetElection\<close> returns normally and broadcasts exactly one \<open>election-reset\<close>; a second
  call in a row broadcasts one more and changes nothing else of the state.
\<close>

theorem resetElection_twice:
  "\<not> running s \<Longrightarrow> mongoClient s = None \<Longrightarrow> redisClient s = None \<Longrightarrow>
   (let r1 = resetElection faults s; r2 = resetElection faults' (snd r1)
    in fst r1 = Inr () \<and> broadcasts (snd r1) = broadcasts s @ [ElectionReset] \<and>
       r2 = (Inr (), (snd r1)\<lparr>broadcasts := broadcasts s @ [ElectionReset, ElectionReset]\<rparr>))"
proof -
  assume a: "mongoClient s = None" "redisClient s = None"
  define s1 where "s1 = snd (resetElection faults s)"
  have s1: "resetElection faults s = (Inr (), s1)"
    by (simp add: s1_def resetElection_closed a)
  have c1: "mongoClient s1 = None" "redisClient s1 = None"
    by (simp_all add: s1_def resetElection_closed a)
  have n1: "nodes s1 = map (\<lambda>(k, node). (k, node\<lparr>heartbeatTimer := None, competitionTimer := None,
                                              status := Idle, lease := None\<rparr>)) (nodes s)"
    and b1: "broadcasts s1 = broadcasts s @ [ElectionReset]"
    and r1: "running s1 = False"
    by (simp_all add: s1_def resetElection_closed a)
  have quiet: "list_all (\<lambda>(k, node). heartbeatTimer node = None \<and> competitionTimer node = None) (nodes s1)"
    by (simp add: n1 list_all_iff split_def)
  have same: "map (\<lambda>(k, node). (k, node\<lparr>heartbeatTimer := None, competitionTimer := None,
                                              status := Idle, lease := None\<rparr>)) (nodes s1) = nodes s1"
    by (simp add: n1 split_def comp_def)
  have "resetElection faults' s1 = (Inr (), s1\<lparr>broadcasts := broadcasts s @ [ElectionReset, ElectionReset]\<rparr>)"
    by (simp add: resetElection_closed c1 fold_clear_none [OF quiet] same b1 r1 [symmetric])
  then show ?thesis
    by (simp add: s1 Let_def b1)
qed

theorem resetElection_twice_witness:
  "(let s0 = constructor Map.empty Map.empty;
        r1 = resetElection no_faults s0; r2 = resetElection no_faults (snd r1)
    in fst r1 = Inr () \<and> broadcasts (snd r1) = [ElectionReset] \<and>
       r2 = (Inr (), (snd r1)\<lparr>broadcasts := [ElectionReset, ElectionReset]\<rparr>))"
  using resetElection_twice [of "constructor Map.empty Map.empty" no_faults no_faults]
  by (simp add: Let_def constructor_def)

subsection \<open>C9: no backend connection\<close>

text \<open>
  C9: while the MongoDB collection handle and the Redis client are both null, acquiring
  and renewing return false and releasing returns, on either backend, without a call on
  any client and without touching the state; so the callers (the competition attempt,
  the heartbeat, \<open>crashNode\<close>) return normally and make no backend call either.
\<close>

theorem no_connection_no_exception:
  "leaderCollection s = None \<Longrightarrow> redisClient s = None \<Longrightarrow>
   tryAcquireMongoLeadership nid now faults s = (Inr False, s) \<and>
   tryAcquireRedisLeadership nid now faults s = (Inr False, s) \<and>
   renewMongoLease nid now faults s = (Inr False, s) \<and>
   renewRedisLease nid now later faults s = (Inr False, s) \<and>
   releaseMongoLock faults s = (Inr (), s) \<and>
   releaseRedisLock faults s = (Inr (), s) \<and>
   fst (competitionAttempt nid now now' faults s) = Inr () \<and>
   commands (snd (competitionAttempt nid now now' faults s)) = commands s \<and>
   fst (heartbeatTick nid now later now' random faults s) = Inr () \<and>
   commands (snd (heartbeatTick nid now later now' random faults s)) = commands s \<and>
   fst (crashNode nid faults s) = Inr () \<and>
   commands (snd (crashNode nid faults s)) = commands s"
  by (simp add: backend_defs crashNode_closed competitionAttempt_closed heartbeatTick_closed)

theorem no_connection_no_exception_witness:
  "(let s0 = constructor Map.empty Map.empty;
        all_fail = (\<lambda>c. Some (Error None))
    in tryAcquireMongoLeadership ''node-1'' 1000 all_fail s0 = (Inr False, s0) \<and>
       tryAcquireRedisLeadership ''node-1'' 1000 all_fail s0 = (Inr False, s0) \<and>
       renewMongoLease ''node-1'' 1000 all_fail s0 = (Inr False, s0) \<and>
       renewRedisLease ''node-1'' 1000 1001 all_fail s0 = (Inr False, s0) \<and>
       releaseMongoLock all_fail s0 = (Inr (), s0) \<and>
       releaseRedisLock all_fail s0 = (Inr (), s0) \<and>
       fst (crashNode ''node-1'' all_fail s0) = Inr () \<and>
       commands (snd (crashNode ''node-1'' all_fail s0)) = [])"
  using no_connection_no_exception
          [of "constructor Map.empty Map.empty" "''node-1''" 1000 "\<lambda>c. Some (Error None)"]
  by (simp add: Let_def constructor_def)

subsection \<open>C10: crashing what is not there, or crashed already\<close>

text \<open>
  C10: \<open>crashNode\<close> on an id that is not in the registry, or on a node whose status is
  \<open>Crashed\<close>, returns the state as it was: no node, timer, record, broadcast or backend
  call changes. Hence a second \<open>crashNode\<close> with the same id, right after a first one,
  changes nothing.
\<close>

theorem crashNode_noop:
  "(get_node nid s = None \<or> (\<exists>node. get_node nid s = Some node \<and> status node = Crashed)
      \<longrightarrow> crashNode nid faults s = (Inr (), s)) \<and>
   crashNode nid faults' (snd (crashNode nid faults s)) = (Inr (), snd (crashNode nid faults s))"
proof
  show "get_node nid s = None \<or> (\<exists>node. get_node nid s = Some node \<and> status node = Crashed)
      \<longrightarrow> crashNode nid faults s = (Inr (), s)"
    by (auto simp: crashNode_def)
next
  have "get_node nid (snd (crashNode nid faults s)) = None \<or>
        (\<exists>node. get_node nid (snd (crashNode nid faults s)) = Some node \<and> status node = Crashed)"
  proof (cases "get_node nid s")
    case None
    then show ?thesis by (simp add: crashNode_def)
  next
    case (Some node)
    show ?thesis
    proof (cases "status node = Crashed")
      case True
      with Some show ?thesis by (simp add: crashNode_def)
    next
      case False
      then show ?thesis
        using Some
        by (cases "status node = Leader")
           (simp_all add: crashNode_leader crashNode_other get_node_def release_fields broadcast_def
              modify_node_def map_of_modify)
    qed
  qed
  then show "crashNode nid faults' (snd (crashNode nid faults s)) = (Inr (), snd (crashNode nid faults s))"
    by (auto simp: crashNode_def)
qed

theorem crashNode_noop_witness:
  "(let s0 = constructor Map.empty Map.empty;
        s1 = snd (crashNode ''node-3'' no_faults s0)
    in crashNode ''node-9'' no_faults s0 = (Inr (), s0) \<and>
       crashNode ''node-3'' no_faults s1 = (Inr (), s1))"
proof -
  have "get_node ''node-9'' (constructor Map.empty Map.empty) = None"
    by (simp add: get_node_def constructor_def new_node_def)
  then show ?thesis
    using crashNode_noop [of "''node-9''" "constructor Map.empty Map.empty" no_faults no_faults]
      crashNode_noop [of "''node-3''" "constructor Map.empty Map.empty" no_faults no_faults]
    by (simp add: Let_def)
qed

end
